theory Spec2Isabelle
  imports Complex_Main "HOL-Library.Sublist"
begin

section \<open>Runtime values\<close>

text \<open>
  The calculator of \<^verbatim>\<open>src/index.tsx\<close> works on JavaScript numbers. A number is
  modelled as a real or the value \<open>NaN\<close>; infinities and signed zeros are not modelled.
  Arithmetic on numbers propagates \<open>NaN\<close> as the runtime does.
\<close>

datatype jsnum = Num real | NaN

fun num_add :: "jsnum \<Rightarrow> jsnum \<Rightarrow> jsnum" where
  "num_add (Num a) (Num b) = Num (a + b)"
| "num_add _ _ = NaN"

fun num_sub :: "jsnum \<Rightarrow> jsnum \<Rightarrow> jsnum" where
  "num_sub (Num a) (Num b) = Num (a - b)"
| "num_sub _ _ = NaN"

fun num_mul :: "jsnum \<Rightarrow> jsnum \<Rightarrow> jsnum" where
  "num_mul (Num a) (Num b) = Num (a * b)"
| "num_mul _ _ = NaN"

text \<open>
  \<^verbatim>\<open>ToNumber\<close> on the result of a property read that is expected to be a number: a
  missing property reads as \<^verbatim>\<open>undefined\<close> (here \<open>None\<close>), which converts to \<open>NaN\<close>.
\<close>

fun ToNumber :: "real option \<Rightarrow> jsnum" where
  "ToNumber None = NaN"
| "ToNumber (Some r) = Num r"

text \<open>
  A property of the object that \<^verbatim>\<open>routeMetrics\<close> returns holds a number (first branch)
  or the string made by \<^verbatim>\<open>toFixed\<close> (second branch). \<open>JStrExp x\<close> stands for the string
  \<^verbatim>\<open>Number::toString(x)\<close> that \<^verbatim>\<open>toFixed\<close> yields for magnitudes from \<open>10^21\<close> on; its
  characters depend on the binary64 representation and are left unexpanded.
\<close>

datatype jsval = JNum jsnum | JStr string | JStrExp real

subsection \<open>Arithmetics\<close>

text \<open>
  The runtime rounds the exact result of each operation to binary64: to the nearest
  number with a significand of 53 bits, to the even one on a tie. \<open>rne\<close> rounds a real to
  such an integer and \<open>round_binary64\<close> scales by the exponent of its argument. The range
  of the exponent (overflow to infinity, subnormal numbers) is not modelled.
\<close>

definition rne :: "real \<Rightarrow> int" where
  "rne y =
     (let f = \<lfloor>y\<rfloor>; d = y - of_int f
      in if d < 1 / 2 then f else if 1 / 2 < d then f + 1 else if even f then f else f + 1)"

definition round_binary64 :: "real \<Rightarrow> real" where
  "round_binary64 x =
     (if x = 0 then 0
      else (let e = \<lfloor>log 2 \<bar>x\<bar>\<rfloor> - 52
            in of_int (rne (x / 2 powr of_int e)) * 2 powr of_int e))"

text \<open>
  An arithmetic is the rounding applied to the result of every operation, and the
  constant \<^verbatim>\<open>Math.PI\<close>. In \<open>exact\<close> nothing is rounded; it is the arithmetic in which the
  route calculation below is stated. \<open>binary64\<close> is the arithmetic of the runtime, with
  \<^verbatim>\<open>Math.PI\<close> the number \<open>3.141592653589793\<close>, that is \<open>884279719003555 / 2^48\<close>. The
  functions \<^verbatim>\<open>Math.sin\<close>, \<^verbatim>\<open>Math.cos\<close>, \<^verbatim>\<open>Math.sqrt\<close> and \<^verbatim>\<open>Math.atan2\<close>, which ECMA-262
  leaves to the implementation to approximate, return the rounding of the exact value.
\<close>

record arith =
  rnd :: "real \<Rightarrow> real"
  Math_PI :: real

definition exact :: arith where
  "exact = \<lparr>rnd = (\<lambda>x. x), Math_PI = pi\<rparr>"

definition binary64 :: arith where
  "binary64 = \<lparr>rnd = round_binary64, Math_PI = 884279719003555 / 281474976710656\<rparr>"

fun num_rnd :: "arith \<Rightarrow> jsnum \<Rightarrow> jsnum" where
  "num_rnd ar (Num x) = Num (rnd ar x)"
| "num_rnd ar NaN = NaN"

subsection \<open>\<^verbatim>\<open>Math.sin\<close>, \<^verbatim>\<open>Math.cos\<close>, \<^verbatim>\<open>Math.sqrt\<close>, \<^verbatim>\<open>Math.atan2\<close>\<close>

definition Math_sin :: "arith \<Rightarrow> real \<Rightarrow> real" where
  "Math_sin ar x = rnd ar (sin x)"

definition Math_cos :: "arith \<Rightarrow> real \<Rightarrow> real" where
  "Math_cos ar x = rnd ar (cos x)"

definition Math_sqrt :: "arith \<Rightarrow> real \<Rightarrow> jsnum" where
  "Math_sqrt ar x = (if x < 0 then NaN else Num (rnd ar (sqrt x)))"

definition atan2 :: "real \<Rightarrow> real \<Rightarrow> real" where
  "atan2 y x =
     (if 0 < x then arctan (y / x)
      else if x < 0 then (if 0 \<le> y then arctan (y / x) + pi else arctan (y / x) - pi)
      else if 0 < y then pi / 2
      else if y < 0 then - (pi / 2)
      else 0)"

fun Math_atan2 :: "arith \<Rightarrow> jsnum \<Rightarrow> jsnum \<Rightarrow> jsnum" where
  "Math_atan2 ar (Num y) (Num x) = Num (rnd ar (atan2 y x))"
| "Math_atan2 ar _ _ = NaN"

subsection \<open>\<^verbatim>\<open>Number.prototype.toFixed\<close>\<close>

definition digit_char :: "nat \<Rightarrow> char" where
  "digit_char d = ''0123456789'' ! (d mod 10)"

function decimal_digits :: "nat \<Rightarrow> string" where
  "decimal_digits n =
     (if n < 10 then [digit_char n]
      else decimal_digits (n div 10) @ [digit_char (n mod 10)])"
  by pat_completeness auto
termination
  by (relation "measure (\<lambda>n. n)") auto

declare decimal_digits.simps [simp del]

text \<open>
  \<^verbatim>\<open>x.toFixed(f)\<close> after ECMA-262: \<open>NaN\<close> prints as \<^verbatim>\<open>"NaN"\<close>; a negative \<open>x\<close> gives the
  sign \<^verbatim>\<open>"-"\<close> and is replaced by \<open>-x\<close>; \<open>n\<close> is the integer for which \<open>n / 10^f - x\<close> is
  closest to zero, the larger one on a tie; its digits are padded on the left to
  \<open>f + 1\<close> characters and the point is put before the last \<open>f\<close>.
\<close>

definition toFixed :: "jsnum \<Rightarrow> nat \<Rightarrow> jsval" where
  "toFixed v f =
     (case v of
        NaN \<Rightarrow> JStr ''NaN''
      | Num x0 \<Rightarrow>
          (let s = (if x0 < 0 then ''-'' else '''');
               x = (if x0 < 0 then - x0 else x0)
           in if 10 ^ 21 \<le> x then JStrExp x0
              else
                (let n = nat \<lfloor>x * 10 ^ f + 1 / 2\<rfloor>;
                     m = decimal_digits n
                 in if f \<noteq> 0 then
                      (let k = length m;
                           m' = (if k \<le> f then replicate (f + 1 - k) (CHR ''0'') @ m else m);
                           k' = (if k \<le> f then f + 1 else k);
                           a = take (k' - f) m';
                           b = drop (k' - f) m'
                       in JStr (s @ a @ ''.'' @ b))
                    else JStr (s @ m))))"

section \<open>Types and constants of the catalog\<close>

text \<open>
  \<^verbatim>\<open>type WasteCategory = 'ACEITES' | 'GRASAS' | 'VIDRIO' | 'ORGANICOS' | 'PLASTICO' | 'PAPEL_CARTON'\<close>
  is a union of string literals that is erased at run time: the \<^verbatim>\<open>switch\<close> of
  \<^verbatim>\<open>getEconomicModel\<close> and the property read on \<^verbatim>\<open>CO2_FACTORS\<close> accept any string. A
  category value is therefore a string, and the type is the set of its six literals.
\<close>

type_synonym category = string

definition WasteCategory :: "category set" where
  "WasteCategory =
     {''ACEITES'', ''GRASAS'', ''VIDRIO'', ''ORGANICOS'', ''PLASTICO'', ''PAPEL_CARTON''}"

datatype EntityRole = GENERADOR | GESTOR | AUTORIDAD | ADMIN

datatype UnitOfMeasure = Unit_kg | Unit_L | Unit_unidades

datatype Currency = COP

text \<open>
  \<^verbatim>\<open>interface Entity\<close>. The field \<^verbatim>\<open>id\<close> is named \<open>id'\<close>. The numeric fields hold finite
  numbers. Text outside ASCII is written as its UTF-8 bytes.
\<close>

record Entity =
  id' :: string
  name :: string
  role :: EntityRole
  address :: string
  wasteTypes :: "category list"
  quantityDescription :: string
  availableQuantity :: real
  unit :: UnitOfMeasure
  pricePerUnit :: real
  currency :: Currency
  lastUpdate :: string
  lat :: real
  lng :: real
  verified :: bool
  traceabilityHash :: string

text \<open>
  \<^verbatim>\<open>const CO2_FACTORS: Record<WasteCategory, number>\<close>, read as \<^verbatim>\<open>CO2_FACTORS[key]\<close>.
  \<open>None\<close> is a read that gives no number: \<^verbatim>\<open>undefined\<close> for a key the object lacks
  (a property the object inherits is not a number either, and converts to \<open>NaN\<close> in
  a product all the same).
\<close>

definition CO2_FACTORS :: "category \<Rightarrow> real option" where
  "CO2_FACTORS =
     map_of [(''ACEITES'', 28 / 10), (''GRASAS'', 12 / 10), (''VIDRIO'', 3 / 10),
             (''ORGANICOS'', 5 / 10), (''PLASTICO'', 15 / 10), (''PAPEL_CARTON'', 1)]"

definition TRUCK_EMISSION_PER_KM :: real where
  "TRUCK_EMISSION_PER_KM = 25 / 100"

text \<open>
  \<^verbatim>\<open>xs[0]\<close>: the first element, \<^verbatim>\<open>undefined\<close> (\<open>None\<close>) on an empty array.
\<close>

definition index0 :: "'a list \<Rightarrow> 'a option" where
  "index0 xs = (case xs of [] \<Rightarrow> None | x # _ \<Rightarrow> Some x)"

text \<open>
  \<^verbatim>\<open>CO2_FACTORS[e.wasteTypes[0]]\<close>: the key \<^verbatim>\<open>undefined\<close> is converted to the property
  name \<^verbatim>\<open>"undefined"\<close>.
\<close>

definition CO2_FACTORS_at :: "category option \<Rightarrow> real option" where
  "CO2_FACTORS_at k = CO2_FACTORS (case k of None \<Rightarrow> ''undefined'' | Some c \<Rightarrow> c)"

text \<open>
  The object \<^verbatim>\<open>getEconomicModel\<close> returns; its property \<^verbatim>\<open>type\<close> is named \<open>type'\<close>.
\<close>

datatype EconomicType = COSTO | GRATIS | INGRESO

record EconomicModel =
  type' :: EconomicType
  label :: string
  color :: string
  sign :: string

text \<open>
  \<^verbatim>\<open>getEconomicModel\<close>: a \<^verbatim>\<open>switch\<close> with the cases \<^verbatim>\<open>'GRASAS'\<close> and \<^verbatim>\<open>'ORGANICOS'\<close> and a
  \<^verbatim>\<open>default\<close>, which every other argument reaches, \<^verbatim>\<open>undefined\<close> included.
\<close>

definition getEconomicModel :: "category option \<Rightarrow> EconomicModel" where
  "getEconomicModel category =
     (if category = Some ''GRASAS'' then
        \<lparr>type' = COSTO,
         label = ''Servicio de Recolecci'' @ [CHR 0xC3, CHR 0xB3] @ ''n'',
         color = ''#F59E0B'', sign = ''-''\<rparr>
      else if category = Some ''ORGANICOS'' then
        \<lparr>type' = GRATIS,
         label = ''Recolecci'' @ [CHR 0xC3, CHR 0xB3] @ ''n Gratuita'',
         color = ''#3B82F6'', sign = ''''\<rparr>
      else
        \<lparr>type' = INGRESO, label = ''Venta de Material'', color = ''#10B981'', sign = ''+''\<rparr>)"

text \<open>
  \<^verbatim>\<open>ENTITIES_DATA\<close>. Each \<^verbatim>\<open>traceabilityHash\<close> is the result of a call of \<^verbatim>\<open>genHash()\<close>,
  which draws random digits: \<open>genHash i\<close> is the string the \<open>i\<close>-th call returned.
\<close>

definition ENTITIES_DATA :: "(nat \<Rightarrow> string) \<Rightarrow> Entity list" where
  "ENTITIES_DATA genHash =
     [\<lparr>id' = ''1'', name = ''Restaurante El Baluarte'', role = GENERADOR,
       address = ''Centro Hist'' @ [CHR 0xC3, CHR 0xB3] @ ''rico, Calle 32'',
       wasteTypes = [''ACEITES''], quantityDescription = ''50L Aceite Usado'',
       availableQuantity = 50, unit = Unit_L, pricePerUnit = 1500, currency = COP,
       lastUpdate = ''2h'', lat = 104230 / 10000, lng = - (755490 / 10000), verified = True,
       traceabilityHash = genHash 0\<rparr>,
      \<lparr>id' = ''2'', name = ''Hotel Caribe Plaza'', role = GENERADOR,
       address = ''Bocagrande, Av. San Mart'' @ [CHR 0xC3, CHR 0xAD] @ ''n'',
       wasteTypes = [''PLASTICO'', ''PAPEL_CARTON''], quantityDescription = ''100kg Reciclables'',
       availableQuantity = 100, unit = Unit_kg, pricePerUnit = 800, currency = COP,
       lastUpdate = ''5h'', lat = 104080 / 10000, lng = - (755550 / 10000), verified = True,
       traceabilityHash = genHash 1\<rparr>,
      \<lparr>id' = ''3'', name = ''Recuperadora del Caribe SAS'', role = GESTOR,
       address = ''Zona Industrial Mamonal'',
       wasteTypes = [''ACEITES'', ''GRASAS''], quantityDescription = ''Planta de Procesamiento'',
       availableQuantity = 0, unit = Unit_L, pricePerUnit = 0, currency = COP,
       lastUpdate = ''1d'', lat = 103850 / 10000, lng = - (755000 / 10000), verified = True,
       traceabilityHash = genHash 2\<rparr>,
      \<lparr>id' = ''4'', name = ''Caf'' @ [CHR 0xC3, CHR 0xA9] @ '' del Mar'', role = GENERADOR,
       address = ''Baluarte Santo Domingo'',
       wasteTypes = [''VIDRIO''], quantityDescription = ''45 botellas'',
       availableQuantity = 45, unit = Unit_unidades, pricePerUnit = 200, currency = COP,
       lastUpdate = ''30m'', lat = 104245 / 10000, lng = - (755520 / 10000), verified = True,
       traceabilityHash = genHash 3\<rparr>,
      \<lparr>id' = ''5'', name = ''EPA Cartagena (Autoridad)'', role = AUTORIDAD,
       address = ''Pie de la Popa'',
       wasteTypes = [], quantityDescription = ''Supervisi'' @ [CHR 0xC3, CHR 0xB3] @ ''n'',
       availableQuantity = 0, unit = Unit_kg, pricePerUnit = 0, currency = COP,
       lastUpdate = ''En l'' @ [CHR 0xC3, CHR 0xAD] @ ''nea'', lat = 104180 / 10000,
       lng = - (755350 / 10000), verified = True,
       traceabilityHash = genHash 4\<rparr>,
      \<lparr>id' = ''7'', name = ''Fritos & M'' @ [CHR 0xC3, CHR 0xA1] @ ''s'', role = GENERADOR,
       address = ''Av. Pedro de Heredia'',
       wasteTypes = [''GRASAS''], quantityDescription = ''Trampa de Grasa (20L)'',
       availableQuantity = 20, unit = Unit_L, pricePerUnit = 5000, currency = COP,
       lastUpdate = ''4h'', lat = 104050 / 10000, lng = - (755250 / 10000), verified = False,
       traceabilityHash = genHash 5\<rparr>,
      \<lparr>id' = ''8'', name = ''Mercado Bazurto Co.'', role = GENERADOR,
       address = ''Av. del Lago'',
       wasteTypes = [''ORGANICOS''],
       quantityDescription = ''500kg Org'' @ [CHR 0xC3, CHR 0xA1] @ ''nicos'',
       availableQuantity = 500, unit = Unit_kg, pricePerUnit = 0, currency = COP,
       lastUpdate = ''10m'', lat = 104130 / 10000, lng = - (755300 / 10000), verified = False,
       traceabilityHash = genHash 6\<rparr>]"

section \<open>Distance\<close>

text \<open>
  \<^verbatim>\<open>deg2rad\<close> and \<^verbatim>\<open>getDistanceFromLatLonInKm\<close>, in an arithmetic: every operation of the
  source rounds its result.
\<close>

definition deg2rad :: "arith \<Rightarrow> real \<Rightarrow> real" where
  "deg2rad ar deg = rnd ar (deg * rnd ar (Math_PI ar / 180))"

definition getDistanceFromLatLonInKm ::
    "arith \<Rightarrow> real \<Rightarrow> real \<Rightarrow> real \<Rightarrow> real \<Rightarrow> jsnum" where
  "getDistanceFromLatLonInKm ar lat1 lon1 lat2 lon2 =
     (let R = 6371;
          dLat = deg2rad ar (rnd ar (lat2 - lat1));
          dLon = deg2rad ar (rnd ar (lon2 - lon1));
          a = rnd ar
                (rnd ar (Math_sin ar (rnd ar (dLat / 2)) * Math_sin ar (rnd ar (dLat / 2))) +
                 rnd ar
                   (rnd ar
                      (rnd ar (Math_cos ar (deg2rad ar lat1) * Math_cos ar (deg2rad ar lat2)) *
                       Math_sin ar (rnd ar (dLon / 2))) *
                    Math_sin ar (rnd ar (dLon / 2))));
          c = num_rnd ar
                (num_mul (Num 2)
                   (Math_atan2 ar (Math_sqrt ar a) (Math_sqrt ar (rnd ar (1 - a)))));
          d = num_rnd ar (num_mul (Num R) c)
      in d)"

section \<open>Filtering\<close>

text \<open>
  \<^verbatim>\<open>Array.prototype.includes\<close> on strings.
\<close>

primrec includes_js :: "'a list \<Rightarrow> 'a \<Rightarrow> bool" where
  "includes_js [] y = False"
| "includes_js (x # xs) y = (if x = y then True else includes_js xs y)"

text \<open>
  \<^verbatim>\<open>filteredEntities\<close>, with the catalog it filters (\<^verbatim>\<open>ENTITIES_DATA\<close> in the source) and
  the state \<^verbatim>\<open>selectedCategory\<close> as arguments.
\<close>

definition filteredEntities :: "Entity list \<Rightarrow> string \<Rightarrow> Entity list" where
  "filteredEntities catalog selectedCategory =
     filter (\<lambda>entity.
        if selectedCategory = ''TODOS'' then True
        else includes_js (wasteTypes entity) selectedCategory) catalog"

section \<open>Route calculation\<close>

text \<open>
  \<^verbatim>\<open>.filter(Boolean)\<close> on the results of \<^verbatim>\<open>find\<close>: an object is kept, \<^verbatim>\<open>undefined\<close> dropped.
\<close>

fun filter_Boolean :: "'a option list \<Rightarrow> 'a list" where
  "filter_Boolean [] = []"
| "filter_Boolean (None # xs) = filter_Boolean xs"
| "filter_Boolean (Some x # xs) = x # filter_Boolean xs"

definition selectedObjs :: "Entity list \<Rightarrow> string list \<Rightarrow> Entity list" where
  "selectedObjs catalog routeEntities =
     filter_Boolean (map (\<lambda>i. List.find (\<lambda>e. id' e = i) catalog) routeEntities)"

text \<open>
  The loop \<^verbatim>\<open>for (let i = 0; i < selectedObjs.length - 1; i++) totalDist += ...\<close>,
  from the index \<open>i\<close> and the running total on, in exact arithmetic.
\<close>

function totalDist_loop :: "Entity list \<Rightarrow> nat \<Rightarrow> jsnum \<Rightarrow> jsnum" where
  "totalDist_loop objs i totalDist =
     (if int i < int (length objs) - 1 then
        totalDist_loop objs (i + 1)
          (num_add totalDist
             (getDistanceFromLatLonInKm exact
                (lat (objs ! i)) (lng (objs ! i))
                (lat (objs ! (i + 1))) (lng (objs ! (i + 1)))))
      else totalDist)"
  by pat_completeness auto
termination
  by (relation "measure (\<lambda>(objs, i, t). length objs - i)") auto

declare totalDist_loop.simps [simp del]

text \<open>
  The two accumulators of the \<^verbatim>\<open>forEach\<close> and its callback.
\<close>

record Totals =
  goodsCost :: real
  avoidedCO2 :: jsnum

definition forEach_body :: "Entity \<Rightarrow> Totals \<Rightarrow> Totals" where
  "forEach_body e t =
     (let econ = getEconomicModel (index0 (wasteTypes e));
          g1 = (if type' econ = INGRESO
                then goodsCost t + availableQuantity e * pricePerUnit e else goodsCost t);
          g2 = (if type' econ = COSTO
                then g1 - availableQuantity e * pricePerUnit e else g1);
          co2 = num_add (avoidedCO2 t)
                  (num_mul (Num (availableQuantity e))
                     (ToNumber (CO2_FACTORS_at (index0 (wasteTypes e)))))
      in \<lparr>goodsCost = g2, avoidedCO2 = co2\<rparr>)"

text \<open>
  The object \<^verbatim>\<open>routeMetrics\<close> returns. Only the first branch sets \<^verbatim>\<open>savings\<close>.
\<close>

record RouteMetrics =
  distance :: jsval
  cost :: jsval
  savings :: "jsval option"
  goodsBalance :: jsval
  totalCO2 :: jsval
  netESG :: jsval

text \<open>
  \<^verbatim>\<open>routeMetrics\<close>, with the catalog (\<^verbatim>\<open>ENTITIES_DATA\<close> in the source) and the state
  \<^verbatim>\<open>routeEntities\<close> as arguments.
\<close>

definition routeMetrics :: "Entity list \<Rightarrow> string list \<Rightarrow> RouteMetrics" where
  "routeMetrics catalog routeEntities =
     (if length routeEntities < 2 then
        \<lparr>distance = JNum (Num 0), cost = JNum (Num 0), savings = Some (JNum (Num 0)),
         goodsBalance = JNum (Num 0), totalCO2 = JNum (Num 0), netESG = JNum (Num 0)\<rparr>
      else
        (let objs = selectedObjs catalog routeEntities;
             totalDist = totalDist_loop objs 0 (Num 0);
             baseLogisticsCost = num_mul totalDist (Num 2500);
             t = fold forEach_body objs \<lparr>goodsCost = 0, avoidedCO2 = Num 0\<rparr>;
             logisticsEmissions = num_mul totalDist (Num TRUCK_EMISSION_PER_KM);
             discount = (if length routeEntities > 2 then 10 / 100 else 0)
         in \<lparr>distance = toFixed totalDist 2,
             cost = toFixed (num_mul baseLogisticsCost (Num (1 - discount))) 0,
             savings = None,
             goodsBalance = JNum (Num (goodsCost t)),
             totalCO2 = toFixed (avoidedCO2 t) 1,
             netESG = toFixed (num_sub (avoidedCO2 t) logisticsEmissions) 1\<rparr>))"

section \<open>The quantities the specification names\<close>

text \<open>
  These follow the words of the specification and are compared with the code above.
  The great-circle length by the haversine formula, as a real:
\<close>

definition radians :: "real \<Rightarrow> real" where
  "radians deg = deg * (pi / 180)"

definition hav_a :: "real \<Rightarrow> real \<Rightarrow> real \<Rightarrow> real \<Rightarrow> real" where
  "hav_a lat1 lon1 lat2 lon2 =
     (sin (radians (lat2 - lat1) / 2))\<^sup>2 +
     cos (radians lat1) * cos (radians lat2) * (sin (radians (lon2 - lon1) / 2))\<^sup>2"

definition spec_distanceKm :: "real \<Rightarrow> real \<Rightarrow> real \<Rightarrow> real \<Rightarrow> real" where
  "spec_distanceKm lat1 lon1 lat2 lon2 =
     6371 * (2 * atan2 (sqrt (hav_a lat1 lon1 lat2 lon2)) (sqrt (1 - hav_a lat1 lon1 lat2 lon2)))"

text \<open>
  Total distance: the sum over each consecutive pair in visiting order.
\<close>

fun spec_totalDistance :: "Entity list \<Rightarrow> real" where
  "spec_totalDistance (a # b # rest) =
     spec_distanceKm (lat a) (lng a) (lat b) (lng b) + spec_totalDistance (b # rest)"
| "spec_totalDistance _ = 0"

text \<open>
  Material balance: the regime of the primary category decides the sign of
  quantity times price.
\<close>

definition spec_contribution :: "Entity \<Rightarrow> real" where
  "spec_contribution e =
     (case type' (getEconomicModel (index0 (wasteTypes e))) of
        INGRESO \<Rightarrow> availableQuantity e * pricePerUnit e
      | COSTO \<Rightarrow> - (availableQuantity e * pricePerUnit e)
      | GRATIS \<Rightarrow> 0)"

definition spec_materialBalance :: "Entity list \<Rightarrow> real" where
  "spec_materialBalance objs = sum_list (map spec_contribution objs)"

text \<open>
  Gross avoided emissions: the sum of quantity times the factor of the primary
  category, in the arithmetic of the runtime (a site with no factor gives \<open>NaN\<close>).
\<close>

definition spec_avoidedCO2 :: "Entity \<Rightarrow> jsnum" where
  "spec_avoidedCO2 e =
     num_mul (Num (availableQuantity e)) (ToNumber (CO2_FACTORS_at (index0 (wasteTypes e))))"

fun spec_grossAvoided :: "Entity list \<Rightarrow> jsnum" where
  "spec_grossAvoided [] = Num 0"
| "spec_grossAvoided (e # es) = num_add (spec_avoidedCO2 e) (spec_grossAvoided es)"



definition has_factor :: "Entity \<Rightarrow> bool" where
  "has_factor e = (CO2_FACTORS_at (index0 (wasteTypes e)) \<noteq> None)"



section \<open>Polynomials in nested form\<close>

text \<open>
  \<open>horner k n X\<close> is the sum of the first \<open>n\<close> terms \<open>(-X)^i k! / (k + 2 i)!\<close>, evaluated
  from the innermost term outwards. With \<open>X = x\<^sup>2\<close> it gives the Taylor polynomials of the
  cosine (\<open>k = 0\<close>) and, times \<open>x\<close>, of the sine (\<open>k = 1\<close>); it serves to enclose their
  values at given arguments between two rationals.
\<close>

fun horner :: "nat \<Rightarrow> nat \<Rightarrow> real \<Rightarrow> real" where
  "horner k 0 X = 0"
| "horner k (Suc n) X = 1 - X * horner (k + 2) n X / (real (k + 1) * real (k + 2))"

section \<open>Sample inputs\<close>

text \<open>
  A string of the shape \<^verbatim>\<open>genHash()\<close> returns, taken for every entry where the seeded
  catalog is evaluated; a constructor of sites whose remaining fields do not matter; and
  three small catalogs: two empty sites half the globe apart, the same two with a third
  at the place of the second, and two sites with a load of 0.01 units each.
\<close>

definition sample_genHash :: "nat \<Rightarrow> string" where
  "sample_genHash i = ''0x1a2b3c4d...5e6f''"

definition site :: "string \<Rightarrow> category list \<Rightarrow> real \<Rightarrow> real \<Rightarrow> real \<Rightarrow> real \<Rightarrow> Entity" where
  "site i ws q p la lo =
     \<lparr>id' = i, name = i, role = GENERADOR, address = '''', wasteTypes = ws,
      quantityDescription = '''', availableQuantity = q, unit = Unit_kg, pricePerUnit = p,
      currency = COP, lastUpdate = '''', lat = la, lng = lo, verified = True,
      traceabilityHash = ''''\<rparr>"




section \<open>The distance is a number in exact arithmetic\<close>

text \<open>
  The haversine term is a convex combination of a squared sine and a squared cosine, so
  without rounding it lies between 0 and 1, and neither \<^verbatim>\<open>Math.sqrt\<close> sees a negative
  argument.
\<close>

lemma sin_sq_half: "(sin (t / 2))\<^sup>2 = (1 - cos t) / (2::real)"
proof -
  have "cos t = cos (2 * (t / 2))" by simp
  also have "\<dots> = 1 - 2 * (sin (t / 2))\<^sup>2" by (rule cos_double_sin)
  finally show ?thesis by simp
qed

lemma cos_sq_half: "(cos (t / 2))\<^sup>2 = (1 + cos t) / (2::real)"
proof -
  have "cos t = cos (2 * (t / 2))" by simp
  also have "\<dots> = 2 * (cos (t / 2))\<^sup>2 - 1" by (rule cos_double_cos)
  finally show ?thesis by simp
qed

lemma hav_a_decomp:
  "hav_a lat1 lon1 lat2 lon2 =
     (1 - (sin (radians (lon2 - lon1) / 2))\<^sup>2) * (sin ((radians lat2 - radians lat1) / 2))\<^sup>2 +
     (sin (radians (lon2 - lon1) / 2))\<^sup>2 * (cos ((radians lat2 + radians lat1) / 2))\<^sup>2"
proof -
  define p where "p = radians lat1"
  define q where "q = radians lat2"
  define s where "s = (sin (radians (lon2 - lon1) / 2))\<^sup>2"
  have d: "radians (lat2 - lat1) = q - p"
    by (simp add: radians_def p_def q_def left_diff_distrib)
  have s2: "(sin ((q - p) / 2))\<^sup>2 = (1 - cos (q - p)) / 2"
    by (rule sin_sq_half)
  have c2: "(cos ((q + p) / 2))\<^sup>2 = (1 + cos (q + p)) / 2"
    by (rule cos_sq_half)
  have "hav_a lat1 lon1 lat2 lon2 = (1 - cos (q - p)) / 2 + cos p * cos q * s"
    unfolding hav_a_def d s2[symmetric] by (simp add: p_def q_def s_def)
  also have "\<dots> = (1 - s) * ((1 - cos (q - p)) / 2) + s * ((1 + cos (q + p)) / 2)"
    by (simp add: cos_diff cos_add field_simps)
  also have "\<dots> = (1 - s) * (sin ((q - p) / 2))\<^sup>2 + s * (cos ((q + p) / 2))\<^sup>2"
    by (simp only: s2 c2)
  finally show ?thesis
    by (simp only: p_def q_def s_def)
qed

lemma hav_a_range: "0 \<le> hav_a lat1 lon1 lat2 lon2 \<and> hav_a lat1 lon1 lat2 lon2 \<le> 1"
proof -
  define s where "s = (sin (radians (lon2 - lon1) / 2))\<^sup>2"
  define u where "u = (sin ((radians lat2 - radians lat1) / 2))\<^sup>2"
  define v where "v = (cos ((radians lat2 + radians lat1) / 2))\<^sup>2"
  have s: "0 \<le> s" "s \<le> 1" unfolding s_def by (simp_all add: abs_square_le_1)
  have u: "0 \<le> u" "u \<le> 1" unfolding u_def by (simp_all add: abs_square_le_1)
  have v: "0 \<le> v" "v \<le> 1" unfolding v_def by (simp_all add: abs_square_le_1)
  have eq: "hav_a lat1 lon1 lat2 lon2 = (1 - s) * u + s * v"
    unfolding s_def u_def v_def by (rule hav_a_decomp)
  have lo: "0 \<le> (1 - s) * u + s * v" using s u v by simp
  have "(1 - s) * u \<le> (1 - s) * 1" using s u by (intro mult_left_mono) simp_all
  moreover have "s * v \<le> s * 1" using s v by (intro mult_left_mono) simp_all
  ultimately have hi: "(1 - s) * u + s * v \<le> 1" by simp
  show ?thesis using lo hi eq by simp
qed

lemma exact_simps [simp]: "rnd exact x = x" "Math_PI exact = pi"
  by (simp_all add: exact_def)

lemma deg2rad_exact: "deg2rad exact d = radians d"
  by (simp add: deg2rad_def radians_def)

lemma getDistance_eq_spec:
  "getDistanceFromLatLonInKm exact lat1 lon1 lat2 lon2 =
     Num (spec_distanceKm lat1 lon1 lat2 lon2)"
proof -
  have a: "sin (radians (lat2 - lat1) / 2) * sin (radians (lat2 - lat1) / 2) +
           cos (radians lat1) * cos (radians lat2) *
           sin (radians (lon2 - lon1) / 2) * sin (radians (lon2 - lon1) / 2)
           = hav_a lat1 lon1 lat2 lon2"
    by (simp add: hav_a_def power2_eq_square)
  have r: "\<not> hav_a lat1 lon1 lat2 lon2 < 0" "\<not> 1 < hav_a lat1 lon1 lat2 lon2"
    using hav_a_range [of lat1 lon1 lat2 lon2] by auto
  show ?thesis
    unfolding getDistanceFromLatLonInKm_def Let_def Math_sin_def Math_cos_def deg2rad_exact
      exact_simps a
    by (simp add: Math_sqrt_def r spec_distanceKm_def)
qed

lemma atan2_nonneg: "0 \<le> y \<Longrightarrow> 0 \<le> x \<Longrightarrow> 0 \<le> atan2 y x"
  by (simp add: atan2_def)

lemma spec_distanceKm_nonneg: "0 \<le> spec_distanceKm lat1 lon1 lat2 lon2"
proof -
  have "0 \<le> atan2 (sqrt (hav_a lat1 lon1 lat2 lon2)) (sqrt (1 - hav_a lat1 lon1 lat2 lon2))"
    using hav_a_range [of lat1 lon1 lat2 lon2] by (intro atan2_nonneg) simp_all
  then show ?thesis by (simp add: spec_distanceKm_def)
qed

lemma hav_a_same: "hav_a la lo la lo = 0"
  by (simp add: hav_a_def radians_def)

lemma spec_distanceKm_same: "spec_distanceKm la lo la lo = 0"
  by (simp add: spec_distanceKm_def hav_a_same atan2_def)

lemma hav_a_sym: "hav_a lat1 lon1 lat2 lon2 = hav_a lat2 lon2 lat1 lon1"
proof -
  have m: "radians (x - y) / 2 = - (radians (y - x) / 2)" for x y
  proof -
    have "x - y = - (y - x)" by simp
    then have "radians (x - y) = - radians (y - x)"
      unfolding radians_def by (simp only: mult_minus_left)
    then show ?thesis by simp
  qed
  have "(sin (radians (x - y) / 2))\<^sup>2 = (sin (radians (y - x) / 2))\<^sup>2" for x y
    by (subst m) (simp only: sin_minus power2_minus)
  then show ?thesis by (simp add: hav_a_def mult.commute)
qed

lemma spec_distanceKm_sym:
  "spec_distanceKm lat1 lon1 lat2 lon2 = spec_distanceKm lat2 lon2 lat1 lon1"
  unfolding spec_distanceKm_def by (simp only: hav_a_sym [of lat1 lon1 lat2 lon2])

section \<open>The loops in closed form\<close>

lemma totalDist_loop_spec:
  "i \<le> length objs \<Longrightarrow>
   totalDist_loop objs i (Num t) = Num (t + spec_totalDistance (drop i objs))"
proof (induction objs i "Num t" arbitrary: t rule: totalDist_loop.induct)
  case (1 objs i)
  show ?case
  proof (cases "int i < int (length objs) - 1")
    case True
    then have lt: "i + 1 < length objs" by simp
    have d1: "drop (Suc i) objs = objs ! Suc i # drop (Suc (Suc i)) objs"
      using lt by (simp add: Cons_nth_drop_Suc)
    have d: "drop i objs = objs ! i # objs ! Suc i # drop (Suc (Suc i)) objs"
      using lt d1 Cons_nth_drop_Suc [of i objs] by simp
    have step: "totalDist_loop objs i (Num t) =
        totalDist_loop objs (i + 1)
          (Num (t + spec_distanceKm (lat (objs ! i)) (lng (objs ! i))
                     (lat (objs ! (i + 1))) (lng (objs ! (i + 1)))))"
      using True by (subst totalDist_loop.simps) (simp add: getDistance_eq_spec)
    have "totalDist_loop objs (i + 1)
          (Num (t + spec_distanceKm (lat (objs ! i)) (lng (objs ! i))
                     (lat (objs ! (i + 1))) (lng (objs ! (i + 1))))) =
          Num (t + spec_distanceKm (lat (objs ! i)) (lng (objs ! i))
                     (lat (objs ! (i + 1))) (lng (objs ! (i + 1)))
               + spec_totalDistance (drop (i + 1) objs))"
      using True lt by (intro "1.hyps") (simp_all add: getDistance_eq_spec)
    then show ?thesis
      unfolding step by (simp add: d d1)
  next
    case False
    then have "length (drop i objs) \<le> 1" by simp
    then have "spec_totalDistance (drop i objs) = 0"
      by (cases "drop i objs" rule: spec_totalDistance.cases) simp_all
    then show ?thesis
      using False by (subst totalDist_loop.simps) simp
  qed
qed

lemma totalDist_loop_0: "totalDist_loop objs 0 (Num 0) = Num (spec_totalDistance objs)"
  using totalDist_loop_spec [of 0 objs 0] by simp


lemma num_add_assoc: "num_add (num_add a b) c = num_add a (num_add b c)"
  by (cases a; cases b; cases c) simp_all

lemma num_add_0_right: "num_add a (Num 0) = a"
  by (cases a) simp_all

lemma forEach_body_goodsCost:
  "goodsCost (forEach_body e t) = goodsCost t + spec_contribution e"
  by (simp add: forEach_body_def spec_contribution_def getEconomicModel_def Let_def)

lemma forEach_body_avoidedCO2:
  "avoidedCO2 (forEach_body e t) = num_add (avoidedCO2 t) (spec_avoidedCO2 e)"
  by (simp add: forEach_body_def spec_avoidedCO2_def Let_def)

lemma fold_goodsCost:
  "goodsCost (fold forEach_body objs t) = goodsCost t + spec_materialBalance objs"
  by (induction objs arbitrary: t)
     (simp_all add: spec_materialBalance_def forEach_body_goodsCost)

lemma fold_avoidedCO2:
  "avoidedCO2 (fold forEach_body objs t) = num_add (avoidedCO2 t) (spec_grossAvoided objs)"
  by (induction objs arbitrary: t)
     (simp_all add: forEach_body_avoidedCO2 num_add_assoc num_add_0_right)


lemma spec_avoidedCO2_NaN: "\<not> has_factor e \<Longrightarrow> spec_avoidedCO2 e = NaN"
  by (simp add: has_factor_def spec_avoidedCO2_def)


lemma num_add_NaN_right: "num_add a NaN = NaN"
  by (cases a) simp_all

lemma spec_grossAvoided_NaN:
  "\<not> list_all has_factor objs \<Longrightarrow> spec_grossAvoided objs = NaN"
  by (induction objs) (auto simp: spec_avoidedCO2_NaN num_add_NaN_right)

section \<open>Evaluating \<^verbatim>\<open>toFixed\<close>\<close>

lemma decimal_digits_small: "n < 10 \<Longrightarrow> decimal_digits n = [digit_char n]"
  by (subst decimal_digits.simps) simp

lemma decimal_digits_large:
  "10 \<le> n \<Longrightarrow> decimal_digits n = decimal_digits (n div 10) @ [digit_char (n mod 10)]"
  by (subst decimal_digits.simps) simp

lemmas toFixed_eval = toFixed_def decimal_digits_small decimal_digits_large digit_char_def Let_def

section \<open>The result in closed form\<close>

lemma num_add_0_left: "num_add (Num 0) a = a"
  by (cases a) simp_all

lemma routeMetrics_degenerate:
  "length routeEntities < 2 \<Longrightarrow>
   routeMetrics catalog routeEntities =
     \<lparr>distance = JNum (Num 0), cost = JNum (Num 0), savings = Some (JNum (Num 0)),
      goodsBalance = JNum (Num 0), totalCO2 = JNum (Num 0), netESG = JNum (Num 0)\<rparr>"
  by (simp add: routeMetrics_def)

lemma routeMetrics_full:
  assumes "2 \<le> length routeEntities"
  shows "routeMetrics catalog routeEntities =
     \<lparr>distance = toFixed (Num (spec_totalDistance (selectedObjs catalog routeEntities))) 2,
      cost = toFixed (Num (spec_totalDistance (selectedObjs catalog routeEntities) * 2500 *
               (1 - (if 2 < length routeEntities then 10 / 100 else 0)))) 0,
      savings = None,
      goodsBalance = JNum (Num (spec_materialBalance (selectedObjs catalog routeEntities))),
      totalCO2 = toFixed (spec_grossAvoided (selectedObjs catalog routeEntities)) 1,
      netESG = toFixed (num_sub (spec_grossAvoided (selectedObjs catalog routeEntities))
                 (Num (spec_totalDistance (selectedObjs catalog routeEntities) *
                       TRUCK_EMISSION_PER_KM))) 1\<rparr>"
proof -
  have n: "\<not> length routeEntities < 2" using assms by simp
  show ?thesis
    unfolding routeMetrics_def Let_def
    by (simp only: n if_False totalDist_loop_0 fold_goodsCost fold_avoidedCO2
          num_mul.simps num_add_0_left Totals.simps add_0_left)
qed
lemma toFixed_strings:
  "toFixed (Num 0) 0 = JStr ''0''"
  "toFixed (Num 0) 2 = JStr ''0.00''"
  "toFixed (Num 140) 1 = JStr ''140.0''"
  "toFixed (Num 280) 1 = JStr ''280.0''"
  "toFixed (Num 290) 1 = JStr ''290.0''"
  "toFixed (Num (27 / 2)) 1 = JStr ''13.5''"
  "toFixed (Num (7 / 125)) 1 = JStr ''0.1''"
  "toFixed NaN 1 = JStr ''NaN''"
  by (simp_all add: toFixed_eval)

section \<open>Searching the catalog\<close>

lemma includes_js_iff: "includes_js xs y \<longleftrightarrow> y \<in> set xs"
  by (induction xs) auto

lemma selectedObjs_Nil: "selectedObjs catalog [] = []"
  by (simp add: selectedObjs_def)

lemma selectedObjs_Cons:
  "selectedObjs catalog (i # is) =
     (case List.find (\<lambda>e. id' e = i) catalog of
        None \<Rightarrow> selectedObjs catalog is
      | Some e \<Rightarrow> e # selectedObjs catalog is)"
  by (simp add: selectedObjs_def split: option.splits)

lemma selectedObjs_unknown:
  "List.find (\<lambda>e. id' e = i) catalog = None \<Longrightarrow>
   selectedObjs catalog (xs @ i # ys) = selectedObjs catalog (xs @ ys)"
  by (induction xs) (auto simp: selectedObjs_Cons split: option.splits)

lemma selectedObjs_length_le: "length (selectedObjs catalog ids) \<le> length ids"
  by (induction ids) (auto simp: selectedObjs_Nil selectedObjs_Cons split: option.splits)


lemma spec_grossAvoided_member_NaN:
  "e \<in> set objs \<Longrightarrow> spec_avoidedCO2 e = NaN \<Longrightarrow> spec_grossAvoided objs = NaN"
  by (induction objs) (auto simp: num_add_NaN_right)

text \<open>
  An identifier that is in no entity changes nothing once the route is long enough for
  neither test on \<^verbatim>\<open>routeEntities.length\<close> to tell the difference.
\<close>

lemma routeMetrics_unknown_long:
  assumes "List.find (\<lambda>e. id' e = i) catalog = None" and "3 \<le> length (xs @ ys)"
  shows "routeMetrics catalog (xs @ i # ys) = routeMetrics catalog (xs @ ys)"
proof -
  have a: "2 \<le> length (xs @ i # ys)" "2 \<le> length (xs @ ys)"
    and b: "2 < length (xs @ i # ys)" "2 < length (xs @ ys)"
    using assms(2) by simp_all
  show ?thesis
    unfolding routeMetrics_full [OF a(1)] routeMetrics_full [OF a(2)]
      selectedObjs_unknown [OF assms(1)]
    using b by simp
qed

section \<open>Values on the sample inputs\<close>

lemma balance_eval:
  "spec_materialBalance (selectedObjs (ENTITIES_DATA g) [''1'']) = 75000"
  "spec_materialBalance (selectedObjs (ENTITIES_DATA g) [''1'', ''zz'']) = 75000"
  "spec_materialBalance (selectedObjs (ENTITIES_DATA g) [''zz'', ''4'']) = 9000"
  "spec_materialBalance (selectedObjs (ENTITIES_DATA g) [''1'', ''1'']) = 150000"
  "spec_materialBalance (selectedObjs (ENTITIES_DATA g) [''1'', ''2'']) = 155000"
  "spec_materialBalance (selectedObjs (ENTITIES_DATA g) [''7'', ''4'']) = - 91000"
  "spec_materialBalance (selectedObjs (ENTITIES_DATA g) [''5'', ''1'']) = 75000"
  by (simp_all add: selectedObjs_def ENTITIES_DATA_def spec_materialBalance_def
        spec_contribution_def getEconomicModel_def index0_def)

lemma avoided_eval:
  "spec_grossAvoided (selectedObjs (ENTITIES_DATA g) [''1'']) = Num 140"
  "spec_grossAvoided (selectedObjs (ENTITIES_DATA g) [''zz'', ''4'']) = Num (27 / 2)"
  "spec_grossAvoided (selectedObjs (ENTITIES_DATA g) [''1'', ''1'']) = Num 280"
  "spec_grossAvoided (selectedObjs (ENTITIES_DATA g) [''1'', ''2'']) = Num 290"
  "spec_grossAvoided (selectedObjs (ENTITIES_DATA g) [''7'', ''4'']) = Num (75 / 2)"
  "spec_grossAvoided (selectedObjs (ENTITIES_DATA g) [''5'', ''1'']) = NaN"
  by (simp_all add: selectedObjs_def ENTITIES_DATA_def spec_avoidedCO2_def CO2_FACTORS_at_def
        CO2_FACTORS_def index0_def)

lemma dist_eval:
  "spec_totalDistance (selectedObjs (ENTITIES_DATA g) [''1'']) = 0"
  "spec_totalDistance (selectedObjs (ENTITIES_DATA g) [''zz'', ''4'']) = 0"
  "spec_totalDistance (selectedObjs (ENTITIES_DATA g) [''1'', ''1'']) = 0"
  "spec_totalDistance (selectedObjs (ENTITIES_DATA g) [''1'', ''1'', ''1'']) = 0"
  by (simp_all add: selectedObjs_def ENTITIES_DATA_def spec_distanceKm_same)




lemma radians_bounds:
  assumes "- b \<le> l" "l \<le> b"
  shows "- radians b \<le> radians l \<and> radians l \<le> radians b"
proof -
  have p: "0 \<le> pi / 180" by simp
  have "l * (pi / 180) \<le> b * (pi / 180)"
    using assms(2) p by (rule mult_right_mono)
  moreover have "(- b) * (pi / 180) \<le> l * (pi / 180)"
    using assms(1) p by (rule mult_right_mono)
  ultimately show ?thesis by (simp add: radians_def)
qed

lemma radians_90: "radians 90 = pi / 2"
  by (simp add: radians_def)

lemma spec_distanceKm_pos:
  assumes "- 90 \<le> lat1" "lat1 \<le> 90" "- 90 \<le> lat2" "lat2 \<le> 90" "lat1 \<noteq> lat2"
  shows "0 < spec_distanceKm lat1 lon1 lat2 lon2"
proof -
  define x where "x = radians (lat2 - lat1) / 2"
  have c1: "0 \<le> cos (radians lat1)"
    using radians_bounds [of 90 lat1] assms by (intro cos_ge_zero) (simp_all add: radians_90)
  have c2: "0 \<le> cos (radians lat2)"
    using radians_bounds [of 90 lat2] assms by (intro cos_ge_zero) (simp_all add: radians_90)
  have xb: "x \<noteq> 0" "- pi < x" "x < pi"
  proof -
    show "x \<noteq> 0" using assms by (simp add: x_def radians_def)
    have "- 180 \<le> lat2 - lat1" "lat2 - lat1 \<le> 180" using assms by simp_all
    then have "- radians 180 \<le> radians (lat2 - lat1)" "radians (lat2 - lat1) \<le> radians 180"
      using radians_bounds [of 180 "lat2 - lat1"] by simp_all
    moreover have "radians 180 = pi" by (simp add: radians_def)
    moreover have "0 < pi" by simp
    ultimately show "- pi < x" "x < pi" unfolding x_def by linarith+
  qed
  have "sin x \<noteq> 0"
  proof (cases "0 < x")
    case True
    then show ?thesis using sin_gt_zero [of x] xb by simp
  next
    case False
    then have "0 < - x" "- x < pi" using xb by simp_all
    then have "0 < sin (- x)" by (rule sin_gt_zero)
    then show ?thesis by simp
  qed
  then have s: "0 < (sin x)\<^sup>2" by simp
  have "0 \<le> cos (radians lat1) * cos (radians lat2) * (sin (radians (lon2 - lon1) / 2))\<^sup>2"
    using c1 c2 by simp
  then have h: "0 < hav_a lat1 lon1 lat2 lon2"
    using s unfolding hav_a_def x_def by linarith
  have h1: "hav_a lat1 lon1 lat2 lon2 \<le> 1" using hav_a_range by simp
  have y: "0 < sqrt (hav_a lat1 lon1 lat2 lon2)" using h by simp
  have z: "0 \<le> sqrt (1 - hav_a lat1 lon1 lat2 lon2)" using h1 by simp
  have "0 < atan2 (sqrt (hav_a lat1 lon1 lat2 lon2)) (sqrt (1 - hav_a lat1 lon1 lat2 lon2))"
  proof (cases "0 < sqrt (1 - hav_a lat1 lon1 lat2 lon2)")
    case True
    then show ?thesis using y by (simp add: atan2_def arctan_less_iff [of 0, simplified])
  next
    case False
    then have "sqrt (1 - hav_a lat1 lon1 lat2 lon2) = 0" using z by linarith
    then show ?thesis using y by (simp add: atan2_def)
  qed
  then show ?thesis by (simp add: spec_distanceKm_def)
qed

lemma dist_1_4:
  "spec_totalDistance (selectedObjs (ENTITIES_DATA g) [''1'', ''4'']) =
     spec_distanceKm (104230 / 10000) (- (755490 / 10000)) (104245 / 10000) (- (755520 / 10000))"
  "spec_totalDistance (selectedObjs (ENTITIES_DATA g) [''1'', ''zz'', ''4'']) =
     spec_distanceKm (104230 / 10000) (- (755490 / 10000)) (104245 / 10000) (- (755520 / 10000))"
  by (simp_all add: selectedObjs_def ENTITIES_DATA_def)

lemma dist_1_4_pos:
  "0 < spec_distanceKm (104230 / 10000) (- (755490 / 10000)) (104245 / 10000) (- (755520 / 10000))"
  by (rule spec_distanceKm_pos) simp_all

section \<open>The two tables\<close>

lemma CO2_FACTORS_outside: "c \<notin> WasteCategory \<Longrightarrow> CO2_FACTORS c = None"
  by (simp add: WasteCategory_def CO2_FACTORS_def)

lemma CO2_FACTORS_inside:
  "c \<in> WasteCategory \<Longrightarrow> (case CO2_FACTORS c of None \<Rightarrow> False | Some r \<Rightarrow> 0 < r)"
  unfolding WasteCategory_def by (elim insertE emptyE) (simp_all add: CO2_FACTORS_def)

lemma getEconomicModel_types:
  "type' (getEconomicModel k) =
     (if k = Some ''GRASAS'' then COSTO else if k = Some ''ORGANICOS'' then GRATIS else INGRESO)"
  by (simp add: getEconomicModel_def)

lemma getEconomicModel_default:
  "k \<noteq> Some ''GRASAS'' \<Longrightarrow> k \<noteq> Some ''ORGANICOS'' \<Longrightarrow>
   getEconomicModel k =
     \<lparr>type' = INGRESO, label = ''Venta de Material'', color = ''#10B981'', sign = ''+''\<rparr>"
  by (simp add: getEconomicModel_def)

section \<open>Rounding to binary64\<close>

text \<open>
  Rounding to the nearest integer is odd and fixes the integers; rounding to binary64 is
  odd, keeps the sign, and for an argument \<open>x\<close> with \<open>2\<^sup>5\<^sup>2 \<le> |x| 2\<^sup>j < 2\<^sup>5\<^sup>3\<close> it is the
  rounding of \<open>x 2\<^sup>j\<close> to an integer, divided by \<open>2\<^sup>j\<close>.
\<close>

lemma rne_eqI: "\<bar>y - of_int n\<bar> < 1 / 2 \<Longrightarrow> rne y = n"
proof -
  assume a: "\<bar>y - of_int n\<bar> < 1 / 2"
  show ?thesis
  proof (cases "of_int n \<le> y")
    case True
    then have f: "\<lfloor>y\<rfloor> = n" using a by (intro floor_unique) linarith+
    then show ?thesis using a True by (simp add: rne_def Let_def)
  next
    case False
    then have f: "\<lfloor>y\<rfloor> = n - 1" using a by (intro floor_unique) (simp; linarith)+
    then show ?thesis using a False by (simp add: rne_def Let_def)
  qed
qed

lemma rne_of_int [simp]: "rne (of_int n) = n"
  by (rule rne_eqI) simp

lemma rne_0 [simp]: "rne 0 = 0"
  using rne_of_int [of 0] by simp

lemma rne_nonneg: "0 \<le> y \<Longrightarrow> 0 \<le> rne y"
  by (simp add: rne_def Let_def)

lemma rne_minus: "rne (- y) = - rne y"
proof (cases "y = of_int \<lfloor>y\<rfloor>")
  case True
  then obtain n where "y = of_int n" ..
  then show ?thesis using rne_of_int [of "- n"] by simp
next
  case False
  define f where "f = \<lfloor>y\<rfloor>"
  have lt: "of_int f < y" "y < of_int f + 1"
    using False unfolding f_def by linarith+
  have fm: "\<lfloor>- y\<rfloor> = - f - 1"
    using lt by (intro floor_unique) simp_all
  show ?thesis
    unfolding rne_def Let_def fm f_def [symmetric]
    using lt by (auto simp: algebra_simps)
qed

lemma round_binary64_0 [simp]: "round_binary64 0 = 0"
  by (simp add: round_binary64_def)

lemma round_binary64_minus: "round_binary64 (- x) = - round_binary64 x"
  by (simp add: round_binary64_def Let_def rne_minus)

lemma round_binary64_nonneg: "0 \<le> x \<Longrightarrow> 0 \<le> round_binary64 x"
  by (simp add: round_binary64_def Let_def rne_nonneg)

lemma rne_numeral [simp]: "rne (numeral k) = numeral k"
  using rne_of_int [of "numeral k"] by simp

lemma round_binary64_scaled:
  assumes "2 ^ 52 \<le> \<bar>x\<bar> * 2 ^ j" and "\<bar>x\<bar> * 2 ^ j < 2 ^ 53"
  shows "round_binary64 x = of_int (rne (x * 2 ^ j)) / 2 ^ j"
proof -
  have x0: "x \<noteq> 0" "0 < \<bar>x\<bar>" using assms(1) by auto
  have pj: "(2::real) powr real j = 2 ^ j"
    by (rule powr_realpow) simp
  have "(2::real) powr (52 - real j) = 2 powr 52 / 2 powr real j"
    by (rule powr_diff)
  also have "(2::real) powr 52 = 2 ^ 52"
    by (rule powr_numeral) simp
  finally have p: "(2::real) powr (52 - real j) = 2 ^ 52 / 2 ^ j"
    by (simp only: pj)
  have "(2::real) powr (53 - real j) = 2 powr 53 / 2 powr real j"
    by (rule powr_diff)
  also have "(2::real) powr 53 = 2 ^ 53"
    by (rule powr_numeral) simp
  finally have p1: "(2::real) powr (53 - real j) = 2 ^ 53 / 2 ^ j"
    by (simp only: pj)
  have "(2::real) ^ 52 / 2 ^ j \<le> \<bar>x\<bar>"
    using assms(1) by (simp only: pos_divide_le_eq zero_less_power zero_less_numeral)
  then have lo: "52 - real j \<le> log 2 \<bar>x\<bar>"
    using x0 by (subst le_log_iff) (simp_all only: p one_less_numeral_iff num.simps semiring_norm)
  have "\<bar>x\<bar> < (2::real) ^ 53 / 2 ^ j"
    using assms(2) by (simp only: pos_less_divide_eq zero_less_power zero_less_numeral)
  then have hi: "log 2 \<bar>x\<bar> < 53 - real j"
    using x0 by (subst log_less_iff) (simp_all only: p1 one_less_numeral_iff num.simps semiring_norm)
  have fl: "\<lfloor>log 2 \<bar>x\<bar>\<rfloor> = 52 - int j"
    using lo hi by (intro floor_unique) simp_all
  have e: "(2::real) powr (- real j) = 1 / 2 ^ j"
    by (simp add: powr_minus powr_realpow inverse_eq_divide)
  show ?thesis
    using x0 by (simp add: round_binary64_def Let_def fl e)
qed

lemma round_binary64_1 [simp]: "round_binary64 1 = 1"
  using round_binary64_scaled [of 1 52] by simp

lemma binary64_simps [simp]:
  "rnd binary64 = round_binary64" "Math_PI binary64 = 884279719003555 / 281474976710656"
  by (simp_all add: binary64_def)

text \<open>
  The rounding of a value is decided once the value is known closely enough: by its
  distance to a multiple of \<open>2\<^sup>-\<^sup>j\<close>, or by two rationals that enclose it.
\<close>

lemma fl_eval:
  assumes "2 ^ 52 \<le> \<bar>x\<bar> * 2 ^ j" and "\<bar>x\<bar> * 2 ^ j < 2 ^ 53"
    and "\<bar>x * 2 ^ j - of_int n\<bar> < 1 / 2"
  shows "round_binary64 x = of_int n / 2 ^ j"
  using round_binary64_scaled [OF assms(1,2)] rne_eqI [OF assms(3)] by simp

lemma fl_eval_bounds:
  assumes "lo \<le> x \<and> x \<le> hi"
    and "2 ^ 52 \<le> lo * 2 ^ j" and "hi * 2 ^ j < 2 ^ 53"
    and "of_int n - 1 / 2 < lo * 2 ^ j" and "hi * 2 ^ j < of_int n + 1 / 2"
  shows "round_binary64 x = of_int n / 2 ^ j"
proof -
  have p: "(0::real) < 2 ^ j" by simp
  have l: "lo * 2 ^ j \<le> x * 2 ^ j" using assms(1) p by (intro mult_right_mono) simp_all
  have h: "x * 2 ^ j \<le> hi * 2 ^ j" using assms(1) p by (intro mult_right_mono) simp_all
  have "(0::real) \<le> 2 ^ 52" by simp
  then have x0: "0 \<le> x * 2 ^ j" using l assms(2) by linarith
  then have "0 \<le> x" using p by (simp add: zero_le_mult_iff)
  then have a: "\<bar>x\<bar> * 2 ^ j = x * 2 ^ j" by simp
  show ?thesis
  proof (rule fl_eval)
    show "2 ^ 52 \<le> \<bar>x\<bar> * 2 ^ j" unfolding a using l assms(2) by linarith
    show "\<bar>x\<bar> * 2 ^ j < 2 ^ 53" unfolding a using h assms(3) by linarith
    show "\<bar>x * 2 ^ j - of_int n\<bar> < 1 / 2" using l h assms(4,5) by linarith
  qed
qed

lemma fl_eval_one:
  assumes "1 - 1 / 2 ^ 54 < x" and "x \<le> 1"
  shows "round_binary64 x = 1"
proof (cases "x = 1")
  case True
  then show ?thesis by simp
next
  case False
  then have x1: "x < 1" using assms(2) by simp
  have "round_binary64 x = of_int (2 ^ 53) / 2 ^ 53"
  proof (rule fl_eval)
    show "2 ^ 52 \<le> \<bar>x\<bar> * 2 ^ 53" using assms(1) by simp
    show "\<bar>x\<bar> * 2 ^ 53 < 2 ^ 53" using x1 assms(1) by simp
    show "\<bar>x * 2 ^ 53 - of_int (2 ^ 53)\<bar> < 1 / 2" using x1 assms(1) by simp
  qed
  then show ?thesis by simp
qed

section \<open>Enclosures of sine and cosine\<close>

text \<open>
  The Taylor polynomials of sine and cosine in nested form, the propagation of an
  interval through one step of the nesting, and the remainder: for \<open>|x| \<le> b\<close> the
  polynomial of \<open>n\<close> terms is within \<open>b\<^sup>2\<^sup>n / (2 n)!\<close> of the function.
\<close>

lemma horner_sum:
  "horner k n X = (\<Sum>i<n. (- 1) ^ i * X ^ i * fact k / fact (k + 2 * i))"
proof (induction n arbitrary: k)
  case 0
  show ?case by simp
next
  case (Suc n)
  define c where "c = real (k + 1) * real (k + 2)"
  have c0: "c \<noteq> 0" by (simp add: c_def)
  have f: "fact (k + 2) = c * fact k"
    by (simp add: c_def algebra_simps)
  have idx: "k + 2 * Suc i = k + 2 + 2 * i" for i by simp
  have aux: "(- 1) ^ Suc i * X ^ Suc i * F / D = - (X * ((- 1) ^ i * X ^ i * (c * F) / D) / c)"
    for i and F D :: real
    using c0 by (simp add: field_simps)
  have t: "(- 1) ^ Suc i * X ^ Suc i * fact k / fact (k + 2 * Suc i) =
           - (X * ((- 1) ^ i * X ^ i * fact (k + 2) / fact (k + 2 + 2 * i)) / c)" for i
    unfolding idx f by (rule aux)
  have "(\<Sum>i<Suc n. (- 1) ^ i * X ^ i * fact k / fact (k + 2 * i)) =
        1 + (\<Sum>i<n. (- 1) ^ Suc i * X ^ Suc i * fact k / fact (k + 2 * Suc i))"
    by (subst sum.lessThan_Suc_shift) simp
  also have "\<dots> = 1 + (\<Sum>i<n. - (X * ((- 1) ^ i * X ^ i * fact (k + 2) / fact (k + 2 + 2 * i)) / c))"
    by (simp only: t)
  also have "\<dots> = 1 - X * (\<Sum>i<n. (- 1) ^ i * X ^ i * fact (k + 2) / fact (k + 2 + 2 * i)) / c"
    by (simp only: sum_negf sum_distrib_left sum_divide_distrib)
  also have "\<dots> = 1 - X * horner (k + 2) n X / c"
    by (simp only: Suc.IH)
  also have "\<dots> = horner k (Suc n) X"
    by (simp add: c_def)
  finally show ?case by simp
qed

lemma sin_coeff_sum:
  "(\<Sum>m<2 * n. sin_coeff m * x ^ m) =
     (\<Sum>i<n. (- 1) ^ i * x ^ Suc (2 * i) / fact (Suc (2 * i)))"
proof (induction n)
  case 0
  show ?case by simp
next
  case (Suc n)
  have c0: "sin_coeff (2 * n) = 0" by (simp add: sin_coeff_def)
  have c1: "sin_coeff (Suc (2 * n)) = (- 1) ^ n / fact (Suc (2 * n))"
    by (simp add: sin_coeff_def del: fact_Suc)
  have "(\<Sum>m<2 * Suc n. sin_coeff m * x ^ m) =
        (\<Sum>m<2 * n. sin_coeff m * x ^ m) + sin_coeff (2 * n) * x ^ (2 * n) +
        sin_coeff (Suc (2 * n)) * x ^ Suc (2 * n)"
    by (simp del: fact_Suc power_Suc)
  also have "\<dots> = (\<Sum>i<n. (- 1) ^ i * x ^ Suc (2 * i) / fact (Suc (2 * i))) +
        (- 1) ^ n * x ^ Suc (2 * n) / fact (Suc (2 * n))"
    by (simp only: Suc.IH c0 c1) (simp del: fact_Suc power_Suc)
  finally show ?case by (simp del: fact_Suc power_Suc)
qed

lemma cos_coeff_sum:
  "(\<Sum>m<2 * n. cos_coeff m * x ^ m) = (\<Sum>i<n. (- 1) ^ i * x ^ (2 * i) / fact (2 * i))"
proof (induction n)
  case 0
  show ?case by simp
next
  case (Suc n)
  have c0: "cos_coeff (2 * n) = (- 1) ^ n / fact (2 * n)"
    by (simp add: cos_coeff_def del: fact_Suc)
  have c1: "cos_coeff (Suc (2 * n)) = 0" by (simp add: cos_coeff_def)
  have "(\<Sum>m<2 * Suc n. cos_coeff m * x ^ m) =
        (\<Sum>m<2 * n. cos_coeff m * x ^ m) + cos_coeff (2 * n) * x ^ (2 * n) +
        cos_coeff (Suc (2 * n)) * x ^ Suc (2 * n)"
    by (simp del: fact_Suc power_Suc)
  also have "\<dots> = (\<Sum>i<n. (- 1) ^ i * x ^ (2 * i) / fact (2 * i)) +
        (- 1) ^ n * x ^ (2 * n) / fact (2 * n)"
    by (simp only: Suc.IH c0 c1) (simp del: fact_Suc power_Suc)
  finally show ?case by (simp del: fact_Suc power_Suc)
qed

lemma sin_poly_horner: "(\<Sum>m<2 * n. sin_coeff m * x ^ m) = x * horner 1 n (x\<^sup>2)"
proof -
  have t: "(- 1) ^ i * x ^ Suc (2 * i) / fact (Suc (2 * i)) =
           x * ((- 1) ^ i * (x\<^sup>2) ^ i * fact 1 / fact (1 + 2 * i))" for i
    by (simp add: power_mult del: fact_Suc)
  show ?thesis
    by (simp only: sin_coeff_sum horner_sum t sum_distrib_left)
qed

lemma cos_poly_horner: "(\<Sum>m<2 * n. cos_coeff m * x ^ m) = horner 0 n (x\<^sup>2)"
proof -
  have t: "(- 1) ^ i * x ^ (2 * i) / fact (2 * i) =
           (- 1) ^ i * (x\<^sup>2) ^ i * fact 0 / fact (0 + 2 * i)" for i
    by (simp add: power_mult)
  show ?thesis
    by (simp only: cos_coeff_sum horner_sum t)
qed

lemma horner_step:
  assumes "0 \<le> X" and "l' \<le> horner k' n X" and "horner k' n X \<le> u'"
    and "k' = k + 2" and "n' = Suc n" and "c = real (k + 1) * real (k + 2)"
    and "l \<le> 1 - X * u' / c" and "1 - X * l' / c \<le> u"
  shows "l \<le> horner k n' X \<and> horner k n' X \<le> u"
proof -
  have c: "0 < c" using assms(6) by simp
  have "X * horner k' n X / c \<le> X * u' / c"
    using assms(1,3) c by (intro divide_right_mono mult_left_mono) simp_all
  moreover have "X * l' / c \<le> X * horner k' n X / c"
    using assms(1,2) c by (intro divide_right_mono mult_left_mono) simp_all
  moreover have "horner k n' X = 1 - X * horner k' n X / c"
    using assms(4,5,6) by simp
  ultimately show ?thesis using assms(7,8) by linarith
qed

lemma sin_enclosure:
  assumes "\<bar>x\<bar> \<le> b" and "b ^ (2 * n) / fact (2 * n) \<le> e"
  shows "\<bar>sin x - x * horner 1 n (x\<^sup>2)\<bar> \<le> e"
proof -
  have "\<bar>sin x - (\<Sum>m<2 * n. sin_coeff m * x ^ m)\<bar> \<le> inverse (fact (2 * n)) * \<bar>x\<bar> ^ (2 * n)"
    by (rule Maclaurin_sin_bound)
  also have "\<dots> \<le> inverse (fact (2 * n)) * b ^ (2 * n)"
    using assms(1) by (intro mult_left_mono power_mono) simp_all
  also have "\<dots> \<le> e" using assms(2) by (simp add: field_simps)
  finally show ?thesis by (simp only: sin_poly_horner)
qed

lemma cos_enclosure:
  assumes "\<bar>x\<bar> \<le> b" and "b ^ (2 * n) / fact (2 * n) \<le> e"
  shows "\<bar>cos x - horner 0 n (x\<^sup>2)\<bar> \<le> e"
proof -
  obtain t where t: "cos x = (\<Sum>m<2 * n. cos_coeff m * x ^ m) +
      (cos (t + 1 / 2 * real (2 * n) * pi) / fact (2 * n)) * x ^ (2 * n)"
    using Maclaurin_cos_expansion [of x "2 * n"] by blast
  have "\<bar>cos x - (\<Sum>m<2 * n. cos_coeff m * x ^ m)\<bar> =
        \<bar>cos (t + 1 / 2 * real (2 * n) * pi)\<bar> * (\<bar>x\<bar> ^ (2 * n) / fact (2 * n))"
    unfolding t by (simp add: abs_mult power_abs)
  also have "\<dots> \<le> 1 * (\<bar>x\<bar> ^ (2 * n) / fact (2 * n))"
    by (intro mult_right_mono) simp_all
  also have "\<dots> \<le> b ^ (2 * n) / fact (2 * n)"
    using assms(1) by (simp add: divide_right_mono power_mono)
  also have "\<dots> \<le> e" by (rule assms(2))
  finally show ?thesis by (simp only: cos_poly_horner)
qed

text \<open>
  The sine and the cosine at the binary64 number next to 82 degrees, and the sine at the
  binary64 number next to 90 degrees, each between two rationals that round to the same
  binary64 number.
\<close>

lemma sin_at_82_degrees:
  "598580318320799416550233 / 604462909807314587353088 \<le> sin (6445416618514801 / 4503599627370496 :: real) \<and> sin (6445416618514801 / 4503599627370496 :: real) \<le> 1197160636641598833102885 / 1208925819614629174706176"
proof -
  define x :: real where "x = 6445416618514801 / 4503599627370496"
  define X :: real where "X = x\<^sup>2"
  have Xv: "X = 41543395386226771764991056069601 / 20282409603651670423947251286016"
    by (simp add: X_def x_def power2_eq_square)
  have X0: "0 \<le> X" by (simp add: X_def)
  have b0: "0 \<le> horner 29 0 X \<and> horner 29 0 X \<le> 0" by simp
  have b1: "1 \<le> horner 27 1 X \<and> horner 27 1 X \<le> 1"
    by (rule horner_step [where c = 812, OF X0 b0 [THEN conjunct1] b0 [THEN conjunct2]])
       (simp_all add: Xv)
  have b2: "1234328062606528593827031179 / 1237940039285380274899124224 \<le> horner 25 2 X \<and> horner 25 2 X \<le> 308582015651632148456757795 / 309485009821345068724781056"
    by (rule horner_step [where c = 702, OF X0 b1 [THEN conjunct1] b1 [THEN conjunct2]])
       (simp_all add: Xv)
  have b3: "616863178470822910919547489 / 618970019642690137449562112 \<le> horner 23 3 X \<and> horner 23 3 X \<le> 1233726356941645821839094979 / 1237940039285380274899124224"
    by (rule horner_step [where c = 600, OF X0 b2 [THEN conjunct1] b2 [THEN conjunct2]])
       (simp_all add: Xv)
  have b4: "1232946013664632448630612579 / 1237940039285380274899124224 \<le> horner 21 4 X \<and> horner 21 4 X \<le> 308236503416158112157653145 / 309485009821345068724781056"
    by (rule horner_step [where c = 506, OF X0 b3 [THEN conjunct1] b3 [THEN conjunct2]])
       (simp_all add: Xv)
  have b5: "615963616514227992953774173 / 618970019642690137449562112 \<le> horner 19 5 X \<and> horner 19 5 X \<le> 1231927233028455985907548347 / 1237940039285380274899124224"
    by (rule horner_step [where c = 420, OF X0 b4 [THEN conjunct1] b4 [THEN conjunct2]])
       (simp_all add: Xv)
  have b6: "615280996378090893077571515 / 618970019642690137449562112 \<le> horner 17 6 X \<and> horner 17 6 X \<le> 1230561992756181786155143031 / 1237940039285380274899124224"
    by (rule horner_step [where c = 342, OF X0 b5 [THEN conjunct1] b5 [THEN conjunct2]])
       (simp_all add: Xv)
  have b7: "38396047233760796816448525 / 38685626227668133590597632 \<le> horner 15 7 X \<and> horner 15 7 X \<le> 1228673511480345498126352801 / 1237940039285380274899124224"
    by (rule horner_step [where c = 272, OF X0 b6 [THEN conjunct1] b6 [THEN conjunct2]])
       (simp_all add: Xv)
  have b8: "1225956098876525242892159293 / 1237940039285380274899124224 \<le> horner 13 8 X \<and> horner 13 8 X \<le> 612978049438262621446079647 / 618970019642690137449562112"
    by (rule horner_step [where c = 210, OF X0 b7 [THEN conjunct1] b7 [THEN conjunct2]])
       (simp_all add: Xv)
  have b9: "610921745436907970678664941 / 618970019642690137449562112 \<le> horner 11 9 X \<and> horner 11 9 X \<le> 1221843490873815941357329883 / 1237940039285380274899124224"
    by (rule horner_step [where c = 156, OF X0 b8 [THEN conjunct1] b8 [THEN conjunct2]])
       (simp_all add: Xv)
  have b10: "607594392765335717300697383 / 618970019642690137449562112 \<le> horner 9 10 X \<and> horner 9 10 X \<le> 1215188785530671434601394767 / 1237940039285380274899124224"
    by (rule horner_step [where c = 110, OF X0 b9 [THEN conjunct1] b9 [THEN conjunct2]])
       (simp_all add: Xv)
  have b11: "1203370491657162204124604327 / 1237940039285380274899124224 \<le> horner 7 11 X \<and> horner 7 11 X \<le> 150421311457145275515575541 / 154742504910672534362390528"
    by (rule horner_step [where c = 72, OF X0 b10 [THEN conjunct1] b10 [THEN conjunct2]])
       (simp_all add: Xv)
  have b12: "1179254309809455534646386337 / 1237940039285380274899124224 \<le> horner 5 12 X \<and> horner 5 12 X \<le> 589627154904727767323193169 / 618970019642690137449562112"
    by (rule horner_step [where c = 42, OF X0 b11 [THEN conjunct1] b11 [THEN conjunct2]])
       (simp_all add: Xv)
  have b13: "279292450720461716845419273 / 309485009821345068724781056 \<le> horner 3 13 X \<and> horner 3 13 X \<le> 1117169802881846867381677093 / 1237940039285380274899124224"
    by (rule horner_step [where c = 20, OF X0 b12 [THEN conjunct1] b12 [THEN conjunct2]])
       (simp_all add: Xv)
  have b14: "428283328803954315550379227 / 618970019642690137449562112 \<le> horner 1 14 X \<and> horner 1 14 X \<le> 856566657607908631100758455 / 1237940039285380274899124224"
    by (rule horner_step [where c = 6, OF X0 b13 [THEN conjunct1] b13 [THEN conjunct2]])
       (simp_all add: Xv)
  have e: "\<bar>sin x - x * horner 1 14 X\<bar> \<le> 1 / 1000000000000000000000"
    unfolding X_def by (rule sin_enclosure [where b = 2 and n = 14])
      (simp_all add: x_def fact_numeral)
  have x0: "0 \<le> x" by (simp add: x_def)
  have m1: "x * (428283328803954315550379227 / 618970019642690137449562112) \<le> x * horner 1 14 X"
    using b14 x0 by (intro mult_left_mono) simp_all
  have m2: "x * horner 1 14 X \<le> x * (856566657607908631100758455 / 1237940039285380274899124224)"
    using b14 x0 by (intro mult_left_mono) simp_all
  have n1: "598580318320799416550233 / 604462909807314587353088 \<le> x * (428283328803954315550379227 / 618970019642690137449562112) - (1 / 1000000000000000000000)" by (simp add: x_def)
  have n2: "x * (856566657607908631100758455 / 1237940039285380274899124224) + (1 / 1000000000000000000000) \<le> 1197160636641598833102885 / 1208925819614629174706176" by (simp add: x_def)
  have "598580318320799416550233 / 604462909807314587353088 \<le> sin x \<and> sin x \<le> 1197160636641598833102885 / 1208925819614629174706176"
    using e m1 m2 n1 n2 by linarith
  then show ?thesis by (simp only: x_def)
qed

lemma cos_at_82_degrees:
  "84124977573228344376765 / 604462909807314587353088 \<le> cos (6445416618514801 / 4503599627370496 :: real) \<and> cos (6445416618514801 / 4503599627370496 :: real) \<le> 168249955146456688755949 / 1208925819614629174706176"
proof -
  define x :: real where "x = 6445416618514801 / 4503599627370496"
  define X :: real where "X = x\<^sup>2"
  have Xv: "X = 41543395386226771764991056069601 / 20282409603651670423947251286016"
    by (simp add: X_def x_def power2_eq_square)
  have X0: "0 \<le> X" by (simp add: X_def)
  have b0: "0 \<le> horner 28 0 X \<and> horner 28 0 X \<le> 0" by simp
  have b1: "1 \<le> horner 26 1 X \<and> horner 26 1 X \<le> 1"
    by (rule horner_step [where c = 756, OF X0 b0 [THEN conjunct1] b0 [THEN conjunct2]])
       (simp_all add: Xv)
  have b2: "1234039104472220459341263735 / 1237940039285380274899124224 \<le> horner 24 2 X \<and> horner 24 2 X \<le> 154254888059027557417657967 / 154742504910672534362390528"
    by (rule horner_step [where c = 650, OF X0 b1 [THEN conjunct1] b1 [THEN conjunct2]])
       (simp_all add: Xv)
  have b3: "1233361021987453435815989793 / 1237940039285380274899124224 \<le> horner 22 3 X \<and> horner 22 3 X \<le> 616680510993726717907994897 / 618970019642690137449562112"
    by (rule horner_step [where c = 552, OF X0 b2 [THEN conjunct1] b2 [THEN conjunct2]])
       (simp_all add: Xv)
  have b4: "1232472011866158160331347679 / 1237940039285380274899124224 \<le> horner 20 4 X \<and> horner 20 4 X \<le> 38514750370817442510354615 / 38685626227668133590597632"
    by (rule horner_step [where c = 462, OF X0 b3 [THEN conjunct1] b3 [THEN conjunct2]])
       (simp_all add: Xv)
  have b5: "1231296860983025130862812979 / 1237940039285380274899124224 \<le> horner 18 5 X \<and> horner 18 5 X \<le> 307824215245756282715703245 / 309485009821345068724781056"
    by (rule horner_step [where c = 380, OF X0 b4 [THEN conjunct1] b4 [THEN conjunct2]])
       (simp_all add: Xv)
  have b6: "307424551688174773592789965 / 309485009821345068724781056 \<le> horner 16 6 X \<and> horner 16 6 X \<le> 1229698206752699094371159861 / 1237940039285380274899124224"
    by (rule horner_step [where c = 306, OF X0 b5 [THEN conjunct1] b5 [THEN conjunct2]])
       (simp_all add: Xv)
  have b7: "1227445346304460193942032011 / 1237940039285380274899124224 \<le> horner 14 7 X \<and> horner 14 7 X \<le> 306861336576115048485508003 / 309485009821345068724781056"
    by (rule horner_step [where c = 240, OF X0 b6 [THEN conjunct1] b6 [THEN conjunct2]])
       (simp_all add: Xv)
  have b8: "1224126237639386733978849199 / 1237940039285380274899124224 \<le> horner 12 8 X \<and> horner 12 8 X \<le> 76507889852461670873678075 / 77371252455336267181195264"
    by (rule horner_step [where c = 182, OF X0 b7 [THEN conjunct1] b7 [THEN conjunct2]])
       (simp_all add: Xv)
  have b9: "609472619856918764113304209 / 618970019642690137449562112 \<le> horner 10 9 X \<and> horner 10 9 X \<le> 1218945239713837528226608419 / 1237940039285380274899124224"
    by (rule horner_step [where c = 132, OF X0 b8 [THEN conjunct1] b8 [THEN conjunct2]])
       (simp_all add: Xv)
  have b10: "605099455324710386116744407 / 618970019642690137449562112 \<le> horner 8 10 X \<and> horner 8 10 X \<le> 1210198910649420772233488815 / 1237940039285380274899124224"
    by (rule horner_step [where c = 90, OF X0 b9 [THEN conjunct1] b9 [THEN conjunct2]])
       (simp_all add: Xv)
  have b11: "2331398412027530259998101 / 2417851639229258349412352 \<le> horner 6 11 X \<and> horner 6 11 X \<le> 1193675986958095493119027713 / 1237940039285380274899124224"
    by (rule horner_step [where c = 56, OF X0 b10 [THEN conjunct1] b10 [THEN conjunct2]])
       (simp_all add: Xv)
  have b12: "578220954764721115470474785 / 618970019642690137449562112 \<le> horner 4 12 X \<and> horner 4 12 X \<le> 1156441909529442230940949571 / 1237940039285380274899124224"
    by (rule horner_step [where c = 30, OF X0 b11 [THEN conjunct1] b11 [THEN conjunct2]])
       (simp_all add: Xv)
  have b13: "1040550098824628050427331367 / 1237940039285380274899124224 \<le> horner 2 13 X \<and> horner 2 13 X \<le> 130068762353078506303416421 / 154742504910672534362390528"
    by (rule horner_step [where c = 12, OF X0 b12 [THEN conjunct1] b12 [THEN conjunct2]])
       (simp_all add: Xv)
  have b14: "43071988517492912321213227 / 309485009821345068724781056 \<le> horner 0 14 X \<and> horner 0 14 X \<le> 86143977034985824642426455 / 618970019642690137449562112"
    by (rule horner_step [where c = 2, OF X0 b13 [THEN conjunct1] b13 [THEN conjunct2]])
       (simp_all add: Xv)
  have e: "\<bar>cos x - horner 0 14 X\<bar> \<le> 1 / 1000000000000000000000"
    unfolding X_def by (rule cos_enclosure [where b = 2 and n = 14])
      (simp_all add: x_def fact_numeral)
  have n1: "(84124977573228344376765 / 604462909807314587353088 :: real) \<le> (43071988517492912321213227 / 309485009821345068724781056) - (1 / 1000000000000000000000)" by simp
  have n2: "((86143977034985824642426455 / 618970019642690137449562112) :: real) + (1 / 1000000000000000000000) \<le> 168249955146456688755949 / 1208925819614629174706176" by simp
  have "84124977573228344376765 / 604462909807314587353088 \<le> cos x \<and> cos x \<le> 168249955146456688755949 / 1208925819614629174706176"
    using e b14 n1 n2 by linarith
  then show ?thesis by (simp only: x_def)
qed

lemma sin_at_90_degrees:
  "1208925819614629174704967 / 1208925819614629174706176 \<le> sin (884279719003555 / 562949953421312 :: real) \<and> sin (884279719003555 / 562949953421312 :: real) \<le> 1208925819614629174707385 / 1208925819614629174706176"
proof -
  define x :: real where "x = 884279719003555 / 562949953421312"
  define X :: real where "X = x\<^sup>2"
  have Xv: "X = 781950621441006189802102638025 / 316912650057057350374175801344"
    by (simp add: X_def x_def power2_eq_square)
  have X0: "0 \<le> X" by (simp add: X_def)
  have b0: "0 \<le> horner 29 0 X \<and> horner 29 0 X \<le> 0" by simp
  have b1: "1 \<le> horner 27 1 X \<and> horner 27 1 X \<le> 1"
    by (rule horner_step [where c = 812, OF X0 b0 [THEN conjunct1] b0 [THEN conjunct2]])
       (simp_all add: Xv)
  have b2: "1233588907355175245798106469 / 1237940039285380274899124224 \<le> horner 25 2 X \<and> horner 25 2 X \<le> 616794453677587622899053235 / 618970019642690137449562112"
    by (rule horner_step [where c = 702, OF X0 b1 [THEN conjunct1] b1 [THEN conjunct2]])
       (simp_all add: Xv)
  have b3: "616433554119946877089599919 / 618970019642690137449562112 \<le> horner 23 3 X \<and> horner 23 3 X \<le> 1232867108239893754179199839 / 1237940039285380274899124224"
    by (rule horner_step [where c = 600, OF X0 b2 [THEN conjunct1] b2 [THEN conjunct2]])
       (simp_all add: Xv)
  have b4: "615964112864665738953177205 / 618970019642690137449562112 \<le> horner 21 4 X \<and> horner 21 4 X \<le> 1231928225729331477906354411 / 1237940039285380274899124224"
    by (rule horner_step [where c = 506, OF X0 b3 [THEN conjunct1] b3 [THEN conjunct2]])
       (simp_all add: Xv)
  have b5: "76918921940511698213711741 / 77371252455336267181195264 \<le> horner 19 5 X \<and> horner 19 5 X \<le> 1230702751048187171419387857 / 1237940039285380274899124224"
    by (rule horner_step [where c = 420, OF X0 b4 [THEN conjunct1] b4 [THEN conjunct2]])
       (simp_all add: Xv)
  have b6: "1229060982788174157632197849 / 1237940039285380274899124224 \<le> horner 17 6 X \<and> horner 17 6 X \<le> 614530491394087078816098925 / 618970019642690137449562112"
    by (rule horner_step [where c = 342, OF X0 b5 [THEN conjunct1] b5 [THEN conjunct2]])
       (simp_all add: Xv)
  have b7: "1226790824501434158021290507 / 1237940039285380274899124224 \<le> horner 15 7 X \<and> horner 15 7 X \<le> 306697706125358539505322627 / 309485009821345068724781056"
    by (rule horner_step [where c = 272, OF X0 b6 [THEN conjunct1] b6 [THEN conjunct2]])
       (simp_all add: Xv)
  have b8: "19117591013374330995698401 / 19342813113834066795298816 \<le> horner 13 8 X \<and> horner 13 8 X \<le> 1223525824855957183724697665 / 1237940039285380274899124224"
    by (rule horner_step [where c = 210, OF X0 b7 [THEN conjunct1] b7 [THEN conjunct2]])
       (simp_all add: Xv)
  have b9: "304646982631503385292124809 / 309485009821345068724781056 \<le> horner 11 9 X \<and> horner 11 9 X \<le> 1218587930526013541168499237 / 1237940039285380274899124224"
    by (rule horner_step [where c = 156, OF X0 b8 [THEN conjunct1] b8 [THEN conjunct2]])
       (simp_all add: Xv)
  have b10: "1210605992007575920609038669 / 1237940039285380274899124224 \<le> horner 9 10 X \<and> horner 9 10 X \<le> 605302996003787960304519335 / 618970019642690137449562112"
    by (rule horner_step [where c = 110, OF X0 b9 [THEN conjunct1] b9 [THEN conjunct2]])
       (simp_all add: Xv)
  have b11: "1196453225998216666290581713 / 1237940039285380274899124224 \<le> horner 7 11 X \<and> horner 7 11 X \<le> 598226612999108333145290857 / 618970019642690137449562112"
    by (rule horner_step [where c = 72, OF X0 b10 [THEN conjunct1] b10 [THEN conjunct2]])
       (simp_all add: Xv)
  have b12: "583825614806352163298027759 / 618970019642690137449562112 \<le> horner 5 12 X \<and> horner 5 12 X \<le> 1167651229612704326596055519 / 1237940039285380274899124224"
    by (rule horner_step [where c = 42, OF X0 b11 [THEN conjunct1] b11 [THEN conjunct2]])
       (simp_all add: Xv)
  have b13: "273471710712835859506118003 / 309485009821345068724781056 \<le> horner 3 13 X \<and> horner 3 13 X \<le> 1093886842851343438024472013 / 1237940039285380274899124224"
    by (rule horner_step [where c = 20, OF X0 b12 [THEN conjunct1] b12 [THEN conjunct2]])
       (simp_all add: Xv)
  have b14: "788097106014573526548457851 / 1237940039285380274899124224 \<le> horner 1 14 X \<and> horner 1 14 X \<le> 197024276503643381637114463 / 309485009821345068724781056"
    by (rule horner_step [where c = 6, OF X0 b13 [THEN conjunct1] b13 [THEN conjunct2]])
       (simp_all add: Xv)
  have e: "\<bar>sin x - x * horner 1 14 X\<bar> \<le> 1 / 1000000000000000000000"
    unfolding X_def by (rule sin_enclosure [where b = 2 and n = 14])
      (simp_all add: x_def fact_numeral)
  have x0: "0 \<le> x" by (simp add: x_def)
  have m1: "x * (788097106014573526548457851 / 1237940039285380274899124224) \<le> x * horner 1 14 X"
    using b14 x0 by (intro mult_left_mono) simp_all
  have m2: "x * horner 1 14 X \<le> x * (197024276503643381637114463 / 309485009821345068724781056)"
    using b14 x0 by (intro mult_left_mono) simp_all
  have n1: "1208925819614629174704967 / 1208925819614629174706176 \<le> x * (788097106014573526548457851 / 1237940039285380274899124224) - (1 / 1000000000000000000000)" by (simp add: x_def)
  have n2: "x * (197024276503643381637114463 / 309485009821345068724781056) + (1 / 1000000000000000000000) \<le> 1208925819614629174707385 / 1208925819614629174706176" by (simp add: x_def)
  have "1208925819614629174704967 / 1208925819614629174706176 \<le> sin x \<and> sin x \<le> 1208925819614629174707385 / 1208925819614629174706176"
    using e m1 m2 n1 n2 by linarith
  then show ?thesis by (simp only: x_def)
qed




section \<open>The distance in the two arithmetics\<close>

text \<open>
  In exact arithmetic the distance is the number 0 for two equal points, the same when
  the two points are exchanged, and never negative.
\<close>

lemma getDistance_exact:
  "getDistanceFromLatLonInKm exact la lo la lo = Num 0 \<and>
   getDistanceFromLatLonInKm exact lat1 lon1 lat2 lon2 =
     getDistanceFromLatLonInKm exact lat2 lon2 lat1 lon1 \<and>
   (\<exists>d. getDistanceFromLatLonInKm exact lat1 lon1 lat2 lon2 = Num d \<and> 0 \<le> d)"
proof (intro conjI)
  show "getDistanceFromLatLonInKm exact la lo la lo = Num 0"
    by (simp add: getDistance_eq_spec spec_distanceKm_same)
  show "getDistanceFromLatLonInKm exact lat1 lon1 lat2 lon2 =
        getDistanceFromLatLonInKm exact lat2 lon2 lat1 lon1"
    by (simp only: getDistance_eq_spec spec_distanceKm_sym [of lat1 lon1 lat2 lon2])
  show "\<exists>d. getDistanceFromLatLonInKm exact lat1 lon1 lat2 lon2 = Num d \<and> 0 \<le> d"
    using getDistance_eq_spec spec_distanceKm_nonneg by blast
qed

text \<open>
  In binary64 the distance of a point to itself is the number 0, the distance is the same
  when the two points are exchanged, and a distance that is a number is not negative.
\<close>

lemma binary64_same_point: "getDistanceFromLatLonInKm binary64 la lo la lo = Num 0"
  by (simp add: getDistanceFromLatLonInKm_def Let_def deg2rad_def Math_sin_def Math_cos_def
        Math_sqrt_def atan2_def)

lemma binary64_symmetric:
  "getDistanceFromLatLonInKm binary64 lat1 lon1 lat2 lon2 =
   getDistanceFromLatLonInKm binary64 lat2 lon2 lat1 lon1"
proof -
  have d: "rnd binary64 (deg2rad binary64 (rnd binary64 (x - y)) / 2) =
           - rnd binary64 (deg2rad binary64 (rnd binary64 (y - x)) / 2)" for x y
  proof -
    have "x - y = - (y - x)" by simp
    then show ?thesis
      by (simp only: binary64_simps deg2rad_def round_binary64_minus mult_minus_left
            minus_divide_left [symmetric])
  qed
  have s: "Math_sin binary64 (- u) = - Math_sin binary64 u" for u
    by (simp add: Math_sin_def round_binary64_minus)
  have m: "rnd binary64 (rnd binary64 (c * - t) * - t) = rnd binary64 (rnd binary64 (c * t) * t)"
    for c t
    by (simp add: round_binary64_minus)
  show ?thesis
    unfolding getDistanceFromLatLonInKm_def Let_def
    by (simp only: d [of lat1 lat2] d [of lon1 lon2] s m minus_mult_minus
          mult.commute [of "Math_cos binary64 (deg2rad binary64 lat2)"])
qed

lemma binary64_NaN_or_nonneg:
  "getDistanceFromLatLonInKm binary64 lat1 lon1 lat2 lon2 = NaN \<or>
   (\<exists>d. getDistanceFromLatLonInKm binary64 lat1 lon1 lat2 lon2 = Num d \<and> 0 \<le> d)"
proof -
  have n: "0 \<le> round_binary64 (6371 * round_binary64 (2 * round_binary64
              (atan2 (round_binary64 (sqrt a)) (round_binary64 (sqrt b)))))"
    if "0 \<le> a" "0 \<le> b" for a b
  proof -
    have "0 \<le> atan2 (round_binary64 (sqrt a)) (round_binary64 (sqrt b))"
      using that by (intro atan2_nonneg round_binary64_nonneg) simp_all
    then show ?thesis
      by (intro round_binary64_nonneg mult_nonneg_nonneg) simp_all
  qed
  show ?thesis
    unfolding getDistanceFromLatLonInKm_def Let_def Math_sqrt_def
    using n by (auto simp: not_less)
qed

section \<open>The cost as a whole number\<close>



lemma toFixed_0_eval:
  assumes "0 \<le> x" and "real n - 1 / 2 \<le> x" and "x < real n + 1 / 2" and "x < 10 ^ 21"
  shows "toFixed (Num x) 0 = JStr (decimal_digits n)"
proof -
  have "\<lfloor>x + 1 / 2\<rfloor> = int n"
    using assms(2,3) by (intro floor_unique) simp_all
  then have "nat \<lfloor>x + 1 / 2\<rfloor> = n" by simp
  then show ?thesis
    using assms(1,4) by (simp add: toFixed_def Let_def)
qed

lemma toFixed_0_nearest:
  assumes "0 \<le> x" and "x < 10 ^ 21"
  shows "\<exists>n. toFixed (Num x) 0 = JStr (decimal_digits n) \<and> \<bar>real n - x\<bar> \<le> 1 / 2"
proof -
  define n where "n = nat \<lfloor>x + 1 / 2\<rfloor>"
  have f: "0 \<le> \<lfloor>x + 1 / 2\<rfloor>" using assms(1) by simp
  have r: "real n = of_int \<lfloor>x + 1 / 2\<rfloor>" using f by (simp add: n_def)
  have "real n \<le> x + 1 / 2" "x + 1 / 2 < real n + 1"
    unfolding r by linarith+
  then have "real n - 1 / 2 \<le> x" "x < real n + 1 / 2" by linarith+
  then have "toFixed (Num x) 0 = JStr (decimal_digits n)" "\<bar>real n - x\<bar> \<le> 1 / 2"
    using assms toFixed_0_eval [of x n] by (simp, linarith)
  then show ?thesis by blast
qed







section \<open>Claims\<close>

subsection \<open>C1: the material balance\<close>

text \<open>
  C1 as stated, for every route, fails on a route of one site: the guard
  \<^verbatim>\<open>routeEntities.length < 2\<close> returns the balance 0 for the route of site 1, whose
  category \<^verbatim>\<open>'ACEITES'\<close> resolves to \<^verbatim>\<open>'INGRESO'\<close> and whose quantity times price is 75000.
\<close>

theorem C1_counterexample:
  "goodsBalance (routeMetrics (ENTITIES_DATA sample_genHash) [''1'']) = JNum (Num 0) \<and>
   spec_materialBalance (selectedObjs (ENTITIES_DATA sample_genHash) [''1'']) = 75000"
  by (simp add: routeMetrics_degenerate balance_eval)

text \<open>
  C1, amended. For every route of at least two identifiers the returned \<^verbatim>\<open>goodsBalance\<close> is
  the sum, over the sites the identifiers resolve to, of quantity times price for a site
  whose first category resolves to \<^verbatim>\<open>'INGRESO'\<close>, minus that product for \<^verbatim>\<open>'COSTO'\<close>, and zero
  for \<^verbatim>\<open>'GRATIS'\<close>; a route of fewer than two identifiers has the balance 0. For the seeded
  sites 7 (20 L at 5000, \<^verbatim>\<open>'GRASAS'\<close>) and 4 (45 units at 200, \<^verbatim>\<open>'VIDRIO'\<close>) the route
  \<open>[7, 4]\<close> has the balance \<open>9000 - 100000 = -91000\<close>.
\<close>

theorem C1_material_balance:
  "(2 \<le> length routeEntities \<longrightarrow>
      goodsBalance (routeMetrics catalog routeEntities) =
        JNum (Num (spec_materialBalance (selectedObjs catalog routeEntities)))) \<and>
   (length routeEntities < 2 \<longrightarrow>
      goodsBalance (routeMetrics catalog routeEntities) = JNum (Num 0)) \<and>
   goodsBalance (routeMetrics (ENTITIES_DATA genHash) [''7'', ''4'']) = JNum (Num (- 91000))"
proof (intro conjI impI)
  show "goodsBalance (routeMetrics catalog routeEntities) =
        JNum (Num (spec_materialBalance (selectedObjs catalog routeEntities)))"
    if "2 \<le> length routeEntities"
    using that by (simp add: routeMetrics_full)
  show "goodsBalance (routeMetrics catalog routeEntities) = JNum (Num 0)"
    if "length routeEntities < 2"
    using that by (simp add: routeMetrics_degenerate)
  show "goodsBalance (routeMetrics (ENTITIES_DATA genHash) [''7'', ''4'']) = JNum (Num (- 91000))"
    by (simp add: routeMetrics_full balance_eval)
qed

theorem C1_material_balance_witness:
  "goodsBalance (routeMetrics (ENTITIES_DATA sample_genHash) [''1'', ''2'']) = JNum (Num 155000) \<and>
   goodsBalance (routeMetrics (ENTITIES_DATA sample_genHash) []) = JNum (Num 0)"
proof -
  from C1_material_balance [of "[''1'', ''2'']" "ENTITIES_DATA sample_genHash"]
  have "goodsBalance (routeMetrics (ENTITIES_DATA sample_genHash) [''1'', ''2'']) =
        JNum (Num (spec_materialBalance (selectedObjs (ENTITIES_DATA sample_genHash) [''1'', ''2''])))"
    by simp
  moreover from C1_material_balance [of "[]" "ENTITIES_DATA sample_genHash"]
  have "goodsBalance (routeMetrics (ENTITIES_DATA sample_genHash) []) = JNum (Num 0)"
    by simp
  ultimately show ?thesis by (simp only: balance_eval simp_thms)
qed

subsection \<open>C2: the volume discount\<close>




subsection \<open>C3: the net impact\<close>




subsection \<open>C4: fewer than two valid sites\<close>

text \<open>
  A route of fewer than two identifiers returns the zeroed result (lemma
  \<open>routeMetrics_degenerate\<close>). The guard counts identifiers, not the sites they resolve
  to.

  C4. For the route \<open>[zz, 4]\<close> on the seeded catalog, where \<open>zz\<close> is no site, only one
  valid site is supplied and the result is not the zeroed one: the balance is 9000 and
  the avoided emissions are \<^verbatim>\<open>"13.5"\<close>.
\<close>

theorem C4_one_valid_site:
  "length (selectedObjs (ENTITIES_DATA sample_genHash) [''zz'', ''4'']) = 1 \<and>
   routeMetrics (ENTITIES_DATA sample_genHash) [''zz'', ''4''] =
     \<lparr>distance = JStr ''0.00'', cost = JStr ''0'', savings = None,
      goodsBalance = JNum (Num 9000), totalCO2 = JStr ''13.5'', netESG = JStr ''13.5''\<rparr>"
proof
  show "length (selectedObjs (ENTITIES_DATA sample_genHash) [''zz'', ''4'']) = 1"
    by (simp add: selectedObjs_def ENTITIES_DATA_def)
  have l: "2 \<le> length [''zz'', ''4'']" by simp
  show "routeMetrics (ENTITIES_DATA sample_genHash) [''zz'', ''4''] =
     \<lparr>distance = JStr ''0.00'', cost = JStr ''0'', savings = None,
      goodsBalance = JNum (Num 9000), totalCO2 = JStr ''13.5'', netESG = JStr ''13.5''\<rparr>"
    unfolding routeMetrics_full [OF l] avoided_eval dist_eval balance_eval
    by (simp add: toFixed_strings del: One_nat_def)
qed

subsection \<open>C5: identifiers absent from the catalog\<close>

text \<open>
  An absent identifier is dropped from the sites that are measured (lemma
  \<open>selectedObjs_unknown\<close>), and no step of the computation fails. The two tests on
  \<^verbatim>\<open>routeEntities.length\<close> still count it.

  C5. On the seeded catalog, where \<open>zz\<close> is no site: the route \<open>[1, zz]\<close> has the
  balance 75000 and the route \<open>[1]\<close> the balance 0; the cost of \<open>[1, zz, 4]\<close> is rendered
  from 0.9 times the base cost and the cost of \<open>[1, 4]\<close> from the base cost, which is
  positive.
\<close>

theorem C5_unknown_identifier:
  "List.find (\<lambda>e. id' e = ''zz'') (ENTITIES_DATA sample_genHash) = None \<and>
   goodsBalance (routeMetrics (ENTITIES_DATA sample_genHash) [''1'', ''zz'']) = JNum (Num 75000) \<and>
   goodsBalance (routeMetrics (ENTITIES_DATA sample_genHash) [''1'']) = JNum (Num 0) \<and>
   cost (routeMetrics (ENTITIES_DATA sample_genHash) [''1'', ''zz'', ''4'']) =
     toFixed (Num (9 / 10 * (spec_distanceKm (104230 / 10000) (- (755490 / 10000))
                               (104245 / 10000) (- (755520 / 10000)) * 2500))) 0 \<and>
   cost (routeMetrics (ENTITIES_DATA sample_genHash) [''1'', ''4'']) =
     toFixed (Num (spec_distanceKm (104230 / 10000) (- (755490 / 10000))
                     (104245 / 10000) (- (755520 / 10000)) * 2500)) 0 \<and>
   0 < spec_distanceKm (104230 / 10000) (- (755490 / 10000)) (104245 / 10000) (- (755520 / 10000))"
proof (intro conjI)
  show "List.find (\<lambda>e. id' e = ''zz'') (ENTITIES_DATA sample_genHash) = None"
    by (simp add: ENTITIES_DATA_def)
  show "goodsBalance (routeMetrics (ENTITIES_DATA sample_genHash) [''1'', ''zz'']) = JNum (Num 75000)"
    by (simp add: routeMetrics_full balance_eval)
  show "goodsBalance (routeMetrics (ENTITIES_DATA sample_genHash) [''1'']) = JNum (Num 0)"
    by (simp add: routeMetrics_degenerate)
  show "cost (routeMetrics (ENTITIES_DATA sample_genHash) [''1'', ''zz'', ''4'']) =
     toFixed (Num (9 / 10 * (spec_distanceKm (104230 / 10000) (- (755490 / 10000))
                               (104245 / 10000) (- (755520 / 10000)) * 2500))) 0"
    by (simp add: routeMetrics_full dist_1_4 mult.commute)
  show "cost (routeMetrics (ENTITIES_DATA sample_genHash) [''1'', ''4'']) =
     toFixed (Num (spec_distanceKm (104230 / 10000) (- (755490 / 10000))
                     (104245 / 10000) (- (755520 / 10000)) * 2500)) 0"
    by (simp add: routeMetrics_full dist_1_4)
  show "0 < spec_distanceKm (104230 / 10000) (- (755490 / 10000)) (104245 / 10000) (- (755520 / 10000))"
    by (rule dist_1_4_pos)
qed

subsection \<open>C6: what is rounded, and where\<close>




subsection \<open>C7: a category outside the enumeration\<close>

text \<open>
  C7 as stated fails: for \<^verbatim>\<open>'METAL'\<close>, which is none of the six categories,
  \<^verbatim>\<open>getEconomicModel\<close> returns the model of \<^verbatim>\<open>'INGRESO'\<close> and the read of \<^verbatim>\<open>CO2_FACTORS\<close>
  gives no number; a site of that category adds quantity times price to the balance and
  its avoided emissions are \<open>NaN\<close>. Nothing is rejected.
\<close>

theorem C7_counterexample:
  "''METAL'' \<notin> WasteCategory \<and>
   getEconomicModel (Some ''METAL'') =
     \<lparr>type' = INGRESO, label = ''Venta de Material'', color = ''#10B981'', sign = ''+''\<rparr> \<and>
   CO2_FACTORS_at (Some ''METAL'') = None \<and>
   spec_avoidedCO2 (site ''m'' [''METAL''] 50 100 0 0) = NaN \<and>
   spec_contribution (site ''m'' [''METAL''] 50 100 0 0) = 5000"
  by (simp add: WasteCategory_def getEconomicModel_def CO2_FACTORS_at_def CO2_FACTORS_def
        spec_avoidedCO2_def spec_contribution_def site_def index0_def)

text \<open>
  C7, amended. For a value outside the six categories \<^verbatim>\<open>getEconomicModel\<close> takes its
  \<^verbatim>\<open>default\<close> branch and returns the model of \<^verbatim>\<open>'INGRESO'\<close>, as it does for \<^verbatim>\<open>undefined\<close>;
  \<^verbatim>\<open>CO2_FACTORS\<close> has no factor for it, and a quantity times that read is \<open>NaN\<close>, not zero
  and not a rejection.
\<close>

theorem C7_unknown_category:
  "c \<notin> WasteCategory \<Longrightarrow>
   getEconomicModel (Some c) =
     \<lparr>type' = INGRESO, label = ''Venta de Material'', color = ''#10B981'', sign = ''+''\<rparr> \<and>
   getEconomicModel (Some c) = getEconomicModel None \<and>
   CO2_FACTORS_at (Some c) = None \<and>
   num_mul (Num q) (ToNumber (CO2_FACTORS_at (Some c))) = NaN"
proof -
  assume c: "c \<notin> WasteCategory"
  then have n: "Some c \<noteq> Some ''GRASAS''" "Some c \<noteq> Some ''ORGANICOS''"
    by (auto simp: WasteCategory_def)
  have f: "CO2_FACTORS_at (Some c) = None"
    using c by (simp add: CO2_FACTORS_at_def CO2_FACTORS_outside)
  show ?thesis
    by (simp add: getEconomicModel_default [OF n] getEconomicModel_default [of None] f)
qed

theorem C7_unknown_category_witness:
  "''METAL'' \<notin> WasteCategory \<and>
   type' (getEconomicModel (Some ''METAL'')) = INGRESO \<and>
   num_mul (Num 50) (ToNumber (CO2_FACTORS_at (Some ''METAL''))) = NaN"
proof -
  have m: "''METAL'' \<notin> WasteCategory" by (simp add: WasteCategory_def)
  from C7_unknown_category [OF m, of 50] show ?thesis using m by simp
qed

subsection \<open>C8: the distance of a point to itself, symmetry, sign\<close>

text \<open>
  The distance of a point to itself is 0 and the distance is symmetric, in exact
  arithmetic and in binary64 (lemmas \<open>getDistance_exact\<close>, \<open>binary64_same_point\<close>,
  \<open>binary64_symmetric\<close>). In exact arithmetic the haversine term stays within 0 and 1;
  binary64 can round it above 1, and then \<^verbatim>\<open>Math.sqrt(1 - a)\<close> is \<open>NaN\<close>.

  C8. In binary64 the distance from latitude -82, longitude -180 to latitude 82,
  longitude 0, two points opposite on the globe, is \<open>NaN\<close>, not a non-negative number:
  the haversine term is computed as \<open>1 + 2\<^sup>-\<^sup>5\<^sup>2\<close>.
\<close>

theorem C8_antipodal_NaN:
  "getDistanceFromLatLonInKm binary64 (- 82) (- 180) 82 0 = NaN"
proof -
  have k: "rnd binary64 (Math_PI binary64 / 180) = 5030569068109113 / 288230376151711744"
    using fl_eval [of "176855943800711 / 10133099161583616" 58 "5030569068109113"] by simp
  have k0: "round_binary64 (884279719003555 / 281474976710656 / 180) =
      5030569068109113 / 288230376151711744"
    using k by simp
  have dr: "deg2rad binary64 d = round_binary64 (d * (5030569068109113 / 288230376151711744))" for d
    by (simp only: deg2rad_def binary64_simps k0)
  have f164: "rnd binary64 (82 - - 82) = 164"
    using fl_eval [of "164" 45 "5770237022568448"] by simp
  have f180: "rnd binary64 (0 - - 180) = 180"
    using fl_eval [of "180" 45 "6333186975989760"] by simp
  have dLat: "deg2rad binary64 164 = 6445416618514801 / 2251799813685248"
    using fl_eval [of "206253331792473633 / 72057594037927936" 51 "6445416618514801"] by (simp add: dr)
  have dLon: "deg2rad binary64 180 = 884279719003555 / 281474976710656"
    using fl_eval [of "226375608064910085 / 72057594037927936" 51 "7074237752028440"] by (simp add: dr)
  have r2: "deg2rad binary64 82 = 6445416618514801 / 4503599627370496"
    using fl_eval [of "206253331792473633 / 144115188075855872" 52 "6445416618514801"] by (simp add: dr)
  have r1: "deg2rad binary64 (- 82) = - (6445416618514801 / 4503599627370496)"
    using r2 by (simp add: dr round_binary64_minus)
  have h1: "rnd binary64 (6445416618514801 / 2251799813685248 / 2) = 6445416618514801 / 4503599627370496"
    using fl_eval [of "6445416618514801 / 4503599627370496" 52 "6445416618514801"] by simp
  have h2: "rnd binary64 (884279719003555 / 281474976710656 / 2) = 884279719003555 / 562949953421312"
    using fl_eval [of "884279719003555 / 562949953421312" 52 "7074237752028440"] by simp
  have s1: "Math_sin binary64 (6445416618514801 / 4503599627370496) = 4459770905381437 / 4503599627370496"
    using fl_eval_bounds [of "598580318320799416550233 / 604462909807314587353088" "sin (6445416618514801 / 4503599627370496)" "1197160636641598833102885 / 1208925819614629174706176" 53 8919541810762874] sin_at_82_degrees
    by (simp add: Math_sin_def Math_cos_def)
  have c2: "Math_cos binary64 (6445416618514801 / 4503599627370496) = 2507119702494989 / 18014398509481984"
    using fl_eval_bounds [of "84124977573228344376765 / 604462909807314587353088" "cos (6445416618514801 / 4503599627370496)" "168249955146456688755949 / 1208925819614629174706176" 55 5014239404989978] cos_at_82_degrees
    by (simp add: Math_sin_def Math_cos_def)
  have c1: "Math_cos binary64 (- (6445416618514801 / 4503599627370496)) = 2507119702494989 / 18014398509481984"
    using c2 by (simp add: Math_cos_def)
  have s2: "Math_sin binary64 (884279719003555 / 562949953421312) = 1"
    unfolding Math_sin_def binary64_simps
    using sin_at_90_degrees by (intro fl_eval_one) simp_all
  have p1: "rnd binary64 (4459770905381437 / 4503599627370496 * (4459770905381437 / 4503599627370496)) = 8832737443003841 / 9007199254740992"
    using fl_eval [of "19889556528486762294526464184969 / 20282409603651670423947251286016" 53 "8832737443003841"] by simp
  have q: "rnd binary64 (2507119702494989 / 18014398509481984 * (2507119702494989 / 18014398509481984)) = 2791388987794435 / 144115188075855872"
    using fl_eval [of "6285649202638562152591570110121 / 324518553658426726783156020576256" 58 "5582777975588870"] by simp
  have q2: "rnd binary64 (2791388987794435 / 144115188075855872 * 1) = 2791388987794435 / 144115188075855872"
    using fl_eval [of "2791388987794435 / 144115188075855872" 58 "5582777975588870"] by simp
  have a: "rnd binary64 (8832737443003841 / 9007199254740992 + (2791388987794435 / 144115188075855872)) = 4503599627370497 / 4503599627370496"
    using fl_eval [of "144115188075855891 / 144115188075855872" 52 "4503599627370497"] by simp
  have b: "rnd binary64 (1 - (4503599627370497 / 4503599627370496)) = - (1 / 4503599627370496)"
    using fl_eval [of "- (1 / 4503599627370496)" 104 "- 4503599627370496"] by simp
  show ?thesis
    unfolding getDistanceFromLatLonInKm_def Let_def
    by (simp only: f164 f180 dLat dLon h1 h2 r1 r2 s1 s2 c1 c2 p1 q q2 a b)
       (simp add: Math_sqrt_def)
qed

subsection \<open>C9: filtering by category\<close>

text \<open>
  C9. With the sentinel \<^verbatim>\<open>'TODOS'\<close> the filter returns the whole catalog in its order. With
  any other value it returns exactly the sites, in catalog order, whose \<^verbatim>\<open>wasteTypes\<close>
  contain the value at any position; the result is a subsequence of the catalog.
\<close>

theorem C9_filter:
  "filteredEntities catalog ''TODOS'' = catalog \<and>
   (c \<noteq> ''TODOS'' \<longrightarrow>
      filteredEntities catalog c = filter (\<lambda>e. c \<in> set (wasteTypes e)) catalog) \<and>
   subseq (filteredEntities catalog c) catalog"
  by (simp add: filteredEntities_def includes_js_iff)

text \<open>
  In the seeded catalog \<^verbatim>\<open>'PAPEL_CARTON'\<close> is the second category of site 2 only, and
  \<^verbatim>\<open>'ACEITES'\<close> is the first category of sites 1 and 3.
\<close>

theorem C9_filter_witness:
  "''PAPEL_CARTON'' \<noteq> ''TODOS'' \<and>
   filteredEntities (ENTITIES_DATA sample_genHash) ''PAPEL_CARTON'' =
     filter (\<lambda>e. ''PAPEL_CARTON'' \<in> set (wasteTypes e)) (ENTITIES_DATA sample_genHash) \<and>
   map id' (filteredEntities (ENTITIES_DATA sample_genHash) ''PAPEL_CARTON'') = [''2''] \<and>
   map id' (filteredEntities (ENTITIES_DATA sample_genHash) ''ACEITES'') = [''1'', ''3'']"
proof -
  have ne: "''PAPEL_CARTON'' \<noteq> ''TODOS''" by simp
  have ne2: "''ACEITES'' \<noteq> ''TODOS''" by simp
  from C9_filter [of "ENTITIES_DATA sample_genHash" "''PAPEL_CARTON''"] ne
  have 1: "filteredEntities (ENTITIES_DATA sample_genHash) ''PAPEL_CARTON'' =
     filter (\<lambda>e. ''PAPEL_CARTON'' \<in> set (wasteTypes e)) (ENTITIES_DATA sample_genHash)"
    by blast
  from C9_filter [of "ENTITIES_DATA sample_genHash" "''ACEITES''"] ne2
  have 2: "filteredEntities (ENTITIES_DATA sample_genHash) ''ACEITES'' =
     filter (\<lambda>e. ''ACEITES'' \<in> set (wasteTypes e)) (ENTITIES_DATA sample_genHash)"
    by blast
  have 3: "map id' (filter (\<lambda>e. ''PAPEL_CARTON'' \<in> set (wasteTypes e)) (ENTITIES_DATA sample_genHash)) = [''2'']"
    by (simp add: ENTITIES_DATA_def)
  have 4: "map id' (filter (\<lambda>e. ''ACEITES'' \<in> set (wasteTypes e)) (ENTITIES_DATA sample_genHash)) = [''1'', ''3'']"
    by (simp add: ENTITIES_DATA_def)
  show ?thesis using ne 1 2 3 4 by simp
qed

subsection \<open>C10: a site without categories\<close>

text \<open>
  C10. For every route of at least two identifiers that includes a site whose
  \<^verbatim>\<open>wasteTypes\<close> is empty, \<^verbatim>\<open>wasteTypes[0]\<close> is \<^verbatim>\<open>undefined\<close>, the read of the factor gives no
  number, the product with the quantity is \<open>NaN\<close>, and the returned \<^verbatim>\<open>totalCO2\<close> and
  \<^verbatim>\<open>netESG\<close> are \<^verbatim>\<open>"NaN"\<close>; \<^verbatim>\<open>getEconomicModel\<close> takes its \<^verbatim>\<open>default\<close> branch, so the site
  adds quantity times price to the balance, which for the Authority of the seeded
  catalog (entry 5, quantity 0, price 0) is 0.
\<close>

theorem C10_empty_wasteTypes:
  "(2 \<le> length routeEntities \<and> e \<in> set (selectedObjs catalog routeEntities) \<and>
    wasteTypes e = [] \<longrightarrow>
      index0 (wasteTypes e) = None \<and>
      CO2_FACTORS_at (index0 (wasteTypes e)) = None \<and>
      spec_avoidedCO2 e = NaN \<and>
      totalCO2 (routeMetrics catalog routeEntities) = JStr ''NaN'' \<and>
      netESG (routeMetrics catalog routeEntities) = JStr ''NaN'' \<and>
      type' (getEconomicModel (index0 (wasteTypes e))) = INGRESO \<and>
      spec_contribution e = availableQuantity e * pricePerUnit e) \<and>
   List.find (\<lambda>e. id' e = ''5'') (ENTITIES_DATA genHash) = Some (ENTITIES_DATA genHash ! 4) \<and>
   role (ENTITIES_DATA genHash ! 4) = AUTORIDAD \<and>
   wasteTypes (ENTITIES_DATA genHash ! 4) = [] \<and>
   spec_contribution (ENTITIES_DATA genHash ! 4) = 0 * 0"
proof (intro conjI impI)
  assume a: "2 \<le> length routeEntities \<and> e \<in> set (selectedObjs catalog routeEntities) \<and>
    wasteTypes e = []"
  then have w: "wasteTypes e = []" and l: "2 \<le> length routeEntities"
    and m: "e \<in> set (selectedObjs catalog routeEntities)" by simp_all
  show i: "index0 (wasteTypes e) = None" by (simp add: w index0_def)
  show f: "CO2_FACTORS_at (index0 (wasteTypes e)) = None"
    by (simp add: i CO2_FACTORS_at_def CO2_FACTORS_def)
  show n: "spec_avoidedCO2 e = NaN" by (simp add: spec_avoidedCO2_def f)
  have g: "spec_grossAvoided (selectedObjs catalog routeEntities) = NaN"
    using m n by (rule spec_grossAvoided_member_NaN)
  show "totalCO2 (routeMetrics catalog routeEntities) = JStr ''NaN''"
    by (simp add: routeMetrics_full [OF l] g toFixed_def)
  show "netESG (routeMetrics catalog routeEntities) = JStr ''NaN''"
    by (simp add: routeMetrics_full [OF l] g toFixed_def)
  show "type' (getEconomicModel (index0 (wasteTypes e))) = INGRESO"
    by (simp add: i getEconomicModel_def)
  show "spec_contribution e = availableQuantity e * pricePerUnit e"
    by (simp add: spec_contribution_def i getEconomicModel_def)
next
  show "List.find (\<lambda>e. id' e = ''5'') (ENTITIES_DATA genHash) = Some (ENTITIES_DATA genHash ! 4)"
    by (simp add: ENTITIES_DATA_def)
  show "role (ENTITIES_DATA genHash ! 4) = AUTORIDAD"
    by (simp add: ENTITIES_DATA_def)
  show "wasteTypes (ENTITIES_DATA genHash ! 4) = []"
    by (simp add: ENTITIES_DATA_def)
  show "spec_contribution (ENTITIES_DATA genHash ! 4) = 0 * 0"
    by (simp add: ENTITIES_DATA_def spec_contribution_def index0_def getEconomicModel_def)
qed

theorem C10_empty_wasteTypes_witness:
  "totalCO2 (routeMetrics (ENTITIES_DATA sample_genHash) [''5'', ''1'']) = JStr ''NaN'' \<and>
   netESG (routeMetrics (ENTITIES_DATA sample_genHash) [''5'', ''1'']) = JStr ''NaN'' \<and>
   goodsBalance (routeMetrics (ENTITIES_DATA sample_genHash) [''5'', ''1'']) = JNum (Num 75000)"
proof -
  have h: "2 \<le> length [''5'', ''1''] \<and>
      ENTITIES_DATA sample_genHash ! 4 \<in> set (selectedObjs (ENTITIES_DATA sample_genHash) [''5'', ''1'']) \<and>
      wasteTypes (ENTITIES_DATA sample_genHash ! 4) = []"
    by (simp add: selectedObjs_def ENTITIES_DATA_def)
  from C10_empty_wasteTypes
         [of "[''5'', ''1'']" "ENTITIES_DATA sample_genHash ! 4" "ENTITIES_DATA sample_genHash"] h
  have "totalCO2 (routeMetrics (ENTITIES_DATA sample_genHash) [''5'', ''1'']) = JStr ''NaN'' \<and>
        netESG (routeMetrics (ENTITIES_DATA sample_genHash) [''5'', ''1'']) = JStr ''NaN''"
    by blast
  moreover have "goodsBalance (routeMetrics (ENTITIES_DATA sample_genHash) [''5'', ''1'']) = JNum (Num 75000)"
    by (simp add: routeMetrics_full balance_eval)
  ultimately show ?thesis by simp
qed

end
